theory Spec2Isabelle
  imports Complex_Main
begin

section \<open>JavaScript strings\<close>

text \<open>
  A JavaScript string is modelled as a \<^typ>\<open>string\<close>: the list of its code units, each
  below 256 (the Latin-1 range). All literals of the program and all queries of the
  scenarios are ASCII.
\<close>

definition code :: "char \<Rightarrow> nat" where
  "code c = of_char c"

definition is_upper :: "char \<Rightarrow> bool" where
  \<comment> \<open>the class \<open>[A-Z]\<close>\<close>
  "is_upper c = (65 \<le> code c \<and> code c \<le> 90)"

definition is_lower :: "char \<Rightarrow> bool" where
  \<comment> \<open>the class \<open>[a-z]\<close>\<close>
  "is_lower c = (97 \<le> code c \<and> code c \<le> 122)"

definition is_digit :: "char \<Rightarrow> bool" where
  \<comment> \<open>the class \<open>\d\<close>\<close>
  "is_digit c = (48 \<le> code c \<and> code c \<le> 57)"

definition is_letter :: "char \<Rightarrow> bool" where
  \<comment> \<open>the class \<open>[a-z]\<close> under the flag \<open>i\<close>\<close>
  "is_letter c = (is_upper c \<or> is_lower c)"

definition is_word :: "char \<Rightarrow> bool" where
  \<comment> \<open>the class \<open>\w\<close>, which decides \<open>\b\<close>\<close>
  "is_word c = (is_letter c \<or> is_digit c \<or> code c = 95)"

definition is_space :: "char \<Rightarrow> bool" where
  \<comment> \<open>the class \<open>\s\<close>, also what \<open>trim\<close> strips: tab, line feed, vertical tab, form
      feed, carriage return, space, no-break space\<close>
  "is_space c = ((9 \<le> code c \<and> code c \<le> 13) \<or> code c = 32 \<or> code c = 160)"

definition is_dot :: "char \<Rightarrow> bool" where
  \<comment> \<open>the class \<open>.\<close>: anything but a line terminator\<close>
  "is_dot c = (code c \<noteq> 10 \<and> code c \<noteq> 13)"

definition lower_char :: "char \<Rightarrow> char" where
  \<comment> \<open>\<open>toLowerCase\<close> on one code unit: A-Z, and the Latin-1 capitals but the
      multiplication sign\<close>
  "lower_char c =
     (if is_upper c \<or> (192 \<le> code c \<and> code c \<le> 222 \<and> code c \<noteq> 215)
      then char_of (code c + 32) else c)"

definition toLowerCase :: "string \<Rightarrow> string" where
  "toLowerCase s = map lower_char s"

fun startsWith :: "string \<Rightarrow> string \<Rightarrow> bool" where
  "startsWith s [] = True"
| "startsWith [] (p # ps) = False"
| "startsWith (c # cs) (p # ps) = (c = p \<and> startsWith cs ps)"

fun js_includes :: "string \<Rightarrow> string \<Rightarrow> bool" where
  \<comment> \<open>\<open>s.includes(sub)\<close>\<close>
  "js_includes [] sub = (sub = [])"
| "js_includes (c # cs) sub = (startsWith (c # cs) sub \<or> js_includes cs sub)"

definition trim :: "string \<Rightarrow> string" where
  "trim s = rev (dropWhile is_space (rev (dropWhile is_space s)))"

fun join :: "string \<Rightarrow> string list \<Rightarrow> string" where
  \<comment> \<open>\<open>xs.join(sep)\<close>\<close>
  "join sep [] = []"
| "join sep [x] = x"
| "join sep (x # y # ys) = x @ sep @ join sep (y # ys)"

definition dq :: string where
  \<comment> \<open>the double quote\<close>
  "dq = [CHR 0x22]"

section \<open>Regular expressions\<close>

text \<open>
  The regular expressions of the program are run by a backtracking matcher that returns,
  for one start position, every way to match in the order in which the JavaScript matcher
  tries them: the head of the list is the match JavaScript reports. A state holds the text
  before the position (reversed), the text from the position on, and the captures.
\<close>

datatype rx =
    Sat "char \<Rightarrow> bool"
  | WordB
  | Eps
  | Seq rx rx
  | Alt rx rx
  | Star rx
  | LazyStar rx
  | Grp nat rx

type_synonym mstate = "string \<times> string \<times> (nat \<times> string) list"

definition before :: "mstate \<Rightarrow> string" where
  "before s = fst s"

definition rest :: "mstate \<Rightarrow> string" where
  "rest s = fst (snd s)"

definition caps :: "mstate \<Rightarrow> (nat \<times> string) list" where
  "caps s = snd (snd s)"

definition at_boundary :: "mstate \<Rightarrow> bool" where
  \<comment> \<open>\<open>\b\<close>: exactly one of the two neighbours is a word character\<close>
  "at_boundary s =
     ((case before s of [] \<Rightarrow> False | c # _ \<Rightarrow> is_word c)
      \<noteq> (case rest s of [] \<Rightarrow> False | c # _ \<Rightarrow> is_word c))"

definition consumed :: "mstate \<Rightarrow> mstate \<Rightarrow> string" where
  \<comment> \<open>the text between an earlier state and a later one\<close>
  "consumed s t = rev (take (length (before t) - length (before s)) (before t))"

definition progress :: "mstate \<Rightarrow> mstate \<Rightarrow> bool" where
  "progress s t = (length (rest t) < length (rest s))"

fun rx_iter :: "(mstate \<Rightarrow> mstate list) \<Rightarrow> nat \<Rightarrow> mstate \<Rightarrow> mstate list" where
  \<comment> \<open>greedy repetition: one more round first, then stop here; a round that consumes
      nothing is dropped, as the matcher does\<close>
  "rx_iter f 0 s = [s]"
| "rx_iter f (Suc n) s = concat (map (rx_iter f n) (filter (progress s) (f s))) @ [s]"

fun rx_iter_lazy :: "(mstate \<Rightarrow> mstate list) \<Rightarrow> nat \<Rightarrow> mstate \<Rightarrow> mstate list" where
  \<comment> \<open>lazy repetition: stop here first, then one more round\<close>
  "rx_iter_lazy f 0 s = [s]"
| "rx_iter_lazy f (Suc n) s = s # concat (map (rx_iter_lazy f n) (filter (progress s) (f s)))"

primrec rx_run :: "rx \<Rightarrow> mstate \<Rightarrow> mstate list" where
  "rx_run (Sat p) s =
     (case rest s of
        [] \<Rightarrow> []
      | c # cs \<Rightarrow> if p c then [(c # before s, cs, caps s)] else [])"
| "rx_run WordB s = (if at_boundary s then [s] else [])"
| "rx_run Eps s = [s]"
| "rx_run (Seq a b) s = concat (map (rx_run b) (rx_run a s))"
| "rx_run (Alt a b) s = rx_run a s @ rx_run b s"
| "rx_run (Star a) s = rx_iter (rx_run a) (length (rest s)) s"
| "rx_run (LazyStar a) s = rx_iter_lazy (rx_run a) (length (rest s)) s"
| "rx_run (Grp i a) s =
     map (\<lambda>t. (before t, rest t, (i, consumed s t) # caps t)) (rx_run a s)"


fun rx_exec_from :: "rx \<Rightarrow> string \<Rightarrow> string \<Rightarrow> (string \<times> mstate) option" where
  \<comment> \<open>the leftmost match at or after a position: where it starts and the state it ends in\<close>
  "rx_exec_from r bef [] =
     (case rx_run r (bef, [], []) of [] \<Rightarrow> None | t # _ \<Rightarrow> Some (bef, t))"
| "rx_exec_from r bef (c # cs) =
     (case rx_run r (bef, c # cs, []) of
        [] \<Rightarrow> rx_exec_from r (c # bef) cs
      | t # _ \<Rightarrow> Some (bef, t))"

record rmatch =
  m_index :: nat
  m_end :: nat
  m_text :: string
  m_groups :: "(nat \<times> string) list"

definition mk_match :: "string \<Rightarrow> mstate \<Rightarrow> rmatch" where
  "mk_match bef t =
     \<lparr>m_index = length bef, m_end = length (before t),
      m_text = consumed (bef, [], []) t, m_groups = caps t\<rparr>"

definition rx_match :: "rx \<Rightarrow> string \<Rightarrow> rmatch option" where
  \<comment> \<open>\<open>s.match(r)\<close> for a regular expression without the flag \<open>g\<close>\<close>
  "rx_match r s = map_option (\<lambda>(bef, t). mk_match bef t) (rx_exec_from r [] s)"

definition group :: "rmatch \<Rightarrow> nat \<Rightarrow> string option" where
  \<comment> \<open>\<open>m[i]\<close>: the last capture of group \<open>i\<close>, undefined when the group took no part\<close>
  "group m i = map_of (m_groups m) i"

fun rx_all_from :: "nat \<Rightarrow> rx \<Rightarrow> string \<Rightarrow> string \<Rightarrow> rmatch list" where
  \<comment> \<open>the matches of a regular expression with the flag \<open>g\<close>: each search starts where
      the last match ended, one further after an empty match\<close>
  "rx_all_from 0 r bef s = []"
| "rx_all_from (Suc n) r bef s =
     (case rx_exec_from r bef s of
        None \<Rightarrow> []
      | Some (b0, t) \<Rightarrow>
          mk_match b0 t #
          (if length (before t) = length b0
           then (case rest t of [] \<Rightarrow> [] | c # cs \<Rightarrow> rx_all_from n r (c # before t) cs)
           else rx_all_from n r (before t) (rest t)))"

definition matchAll :: "rx \<Rightarrow> string \<Rightarrow> rmatch list" where
  "matchAll r s = rx_all_from (Suc (length s)) r [] s"

definition match_g :: "rx \<Rightarrow> string \<Rightarrow> string list option" where
  \<comment> \<open>\<open>s.match(r)\<close> with the flag \<open>g\<close>: the matched texts, null when there is none\<close>
  "match_g r s = (case matchAll r s of [] \<Rightarrow> None | ms \<Rightarrow> Some (map m_text ms))"

fun splice :: "string \<Rightarrow> nat \<Rightarrow> rmatch list \<Rightarrow> (rmatch \<Rightarrow> string) \<Rightarrow> string" where
  "splice s pos [] f = drop pos s"
| "splice s pos (m # ms) f =
     take (m_index m - pos) (drop pos s) @ f m @ splice s (m_end m) ms f"

definition replace_g :: "rx \<Rightarrow> (rmatch \<Rightarrow> string) \<Rightarrow> string \<Rightarrow> string" where
  \<comment> \<open>\<open>s.replace(r, ...)\<close> with the flag \<open>g\<close>\<close>
  "replace_g r f s = splice s 0 (matchAll r s) f"

definition replace_first :: "rx \<Rightarrow> (rmatch \<Rightarrow> string) \<Rightarrow> string \<Rightarrow> string" where
  \<comment> \<open>\<open>s.replace(r, ...)\<close> without the flag \<open>g\<close>\<close>
  "replace_first r f s =
     (case rx_match r s of None \<Rightarrow> s | Some m \<Rightarrow> splice s 0 [m] f)"

primrec rx_times :: "nat \<Rightarrow> rx \<Rightarrow> rx \<Rightarrow> rx" where
  \<comment> \<open>\<open>n\<close> copies of \<open>r\<close>, then \<open>k\<close>\<close>
  "rx_times 0 r k = k"
| "rx_times (Suc n) r k = Seq r (rx_times n r k)"

primrec rx_upto :: "nat \<Rightarrow> rx \<Rightarrow> rx" where
  \<comment> \<open>at most \<open>n\<close> copies of \<open>r\<close>, the most first\<close>
  "rx_upto 0 r = Eps"
| "rx_upto (Suc n) r = Alt (Seq r (rx_upto n r)) Eps"

definition rx_rep :: "nat \<Rightarrow> nat \<Rightarrow> rx \<Rightarrow> rx" where
  \<comment> \<open>\<open>r{lo,hi}\<close>\<close>
  "rx_rep lo hi r = rx_times lo r (rx_upto (hi - lo) r)"

definition rx_plus :: "rx \<Rightarrow> rx" where
  "rx_plus r = Seq r (Star r)"

definition rx_seq :: "rx list \<Rightarrow> rx" where
  "rx_seq rs = foldr Seq rs Eps"

fun rx_alt :: "rx list \<Rightarrow> rx" where
  "rx_alt [] = Sat (\<lambda>c. False)"
| "rx_alt [r] = r"
| "rx_alt (r # rs) = Alt r (rx_alt rs)"

definition rx_lit :: "string \<Rightarrow> rx" where
  \<comment> \<open>a literal text\<close>
  "rx_lit s = rx_seq (map (\<lambda>x. Sat (\<lambda>c. c = x)) s)"

definition rx_lit_i :: "string \<Rightarrow> rx" where
  \<comment> \<open>a literal text (written in lower case) under the flag \<open>i\<close>\<close>
  "rx_lit_i s = rx_seq (map (\<lambda>x. Sat (\<lambda>c. lower_char c = x)) s)"

definition rx_upper_token :: "nat \<Rightarrow> nat \<Rightarrow> rx" where
  \<comment> \<open>\<open>\b[A-Z]{lo,hi}\b\<close>\<close>
  "rx_upper_token lo hi = rx_seq [WordB, rx_rep lo hi (Sat is_upper), WordB]"

definition rx_digits :: rx where
  \<comment> \<open>\<open>(\d+)\<close>\<close>
  "rx_digits = Grp 1 (rx_plus (Sat is_digit))"

section \<open>JavaScript values\<close>

text \<open>
  Numbers are the finite reals, the two infinities and NaN. \<open>undefined\<close> is \<open>None\<close> of
  an option. An object is the list of its properties in insertion order. \<open>JFunc\<close> is a
  function object, which no JSON text denotes: the program meets one only when it reads
  the inherited property \<open>constructor\<close> of an object literal.
\<close>

datatype jsnum = NaN | NInf | Fin real | PInf

datatype json =
    JNull
  | JBool bool
  | JNum jsnum
  | JStr string
  | JArr "json list"
  | JObj "(string \<times> json) list"
  | JFunc

fun Math_max :: "jsnum \<Rightarrow> jsnum \<Rightarrow> jsnum" where
  "Math_max NaN b = NaN"
| "Math_max a NaN = NaN"
| "Math_max PInf b = PInf"
| "Math_max a PInf = PInf"
| "Math_max NInf b = b"
| "Math_max a NInf = a"
| "Math_max (Fin x) (Fin y) = Fin (max x y)"

fun Math_min :: "jsnum \<Rightarrow> jsnum \<Rightarrow> jsnum" where
  "Math_min NaN b = NaN"
| "Math_min a NaN = NaN"
| "Math_min NInf b = NInf"
| "Math_min a NInf = NInf"
| "Math_min PInf b = b"
| "Math_min a PInf = a"
| "Math_min (Fin x) (Fin y) = Fin (min x y)"

fun truthy :: "json option \<Rightarrow> bool" where
  "truthy None = False"
| "truthy (Some JNull) = False"
| "truthy (Some (JBool b)) = b"
| "truthy (Some (JNum n)) = (n \<noteq> NaN \<and> n \<noteq> Fin 0)"
| "truthy (Some (JStr s)) = (s \<noteq> [])"
| "truthy (Some (JArr xs)) = True"
| "truthy (Some (JObj kvs)) = True"
| "truthy (Some JFunc) = True"

definition get_prop :: "(string \<times> json) list \<Rightarrow> string \<Rightarrow> json option" where
  \<comment> \<open>\<open>obj[key]\<close>\<close>
  "get_prop obj k = map_of obj k"

fun set_prop :: "(string \<times> json) list \<Rightarrow> string \<Rightarrow> json \<Rightarrow> (string \<times> json) list" where
  \<comment> \<open>\<open>obj[key] = v\<close>: a property that exists keeps its place\<close>
  "set_prop [] k v = [(k, v)]"
| "set_prop ((k', v') # kvs) k v =
     (if k' = k then (k, v) # kvs else (k', v') # set_prop kvs k v)"

definition digit_val :: "char \<Rightarrow> nat" where
  "digit_val c = code c - 48"

function bitlen :: "int \<Rightarrow> nat" where
  \<comment> \<open>the number of binary digits\<close>
  "bitlen n = (if n \<le> 0 then 0 else Suc (bitlen (n div 2)))"
  by pat_completeness auto
termination
  by (relation "measure nat") auto

definition to_double :: "int \<Rightarrow> jsnum" where
  \<comment> \<open>the double nearest to a non-negative integer, ties to the even significand of 53
      bits; an integer that rounds to \<open>2^1024\<close> or beyond is \<open>Infinity\<close>\<close>
  "to_double n =
     (if n < 9007199254740992 then Fin (real_of_int n)
      else
        (let e = bitlen n - 53;
             q = n div 2 ^ e;
             r = n mod 2 ^ e;
             q' = (if 2 ^ e < 2 * r \<or> (2 * r = 2 ^ e \<and> odd q) then q + 1 else q)
         in if 2 ^ 1024 \<le> q' * 2 ^ e then PInf else Fin (real_of_int (q' * 2 ^ e))))"

fun parseInt :: "string option \<Rightarrow> jsnum" where
  \<comment> \<open>\<open>parseInt\<close> on a text of decimal digits, as \<open>(\d+)\<close> captures it: the double of
      the integer the digits denote. (Past the 20th significant digit the language lets
      an implementation read zeros; this is the value without that licence.)\<close>
  "parseInt None = NaN"
| "parseInt (Some ds) = to_double (foldl (\<lambda>n c. 10 * n + int (digit_val c)) 0 ds)"

fun uniq :: "'a list \<Rightarrow> 'a list" where
  \<comment> \<open>\<open>[...new Set(xs)]\<close>: the first occurrence of each element, in order\<close>
  "uniq [] = []"
| "uniq (x # xs) = x # uniq (filter (\<lambda>y. y \<noteq> x) xs)"


section \<open>The rule-based classifier (llm-query-processor.js)\<close>

record classification =
  tool :: string
  parameters :: json
  reasoning :: "json option"
  confidence :: jsnum
  source :: string

definition extract_companyMap :: "(string \<times> string) list" where
  \<comment> \<open>\<open>companyMap\<close> of \<open>extractSymbol\<close>, in the order of its entries\<close>
  "extract_companyMap =
     [(''apple'', ''AAPL''), (''microsoft'', ''MSFT''), (''google'', ''GOOGL''),
      (''amazon'', ''AMZN''), (''tesla'', ''TSLA''), (''meta'', ''META''),
      (''nvidia'', ''NVDA''), (''netflix'', ''NFLX''), (''ford'', ''F''),
      (''general motors'', ''GM''), (''berkshire'', ''BRK.A''), (''jpmorgan'', ''JPM''),
      (''bank of america'', ''BAC''), (''walmart'', ''WMT''), (''coca cola'', ''KO''),
      (''pepsi'', ''PEP''), (''mcdonalds'', ''MCD''), (''disney'', ''DIS''),
      (''adobe'', ''ADBE''), (''salesforce'', ''CRM'')]"

definition extractSymbol :: "string \<Rightarrow> string" where
  \<comment> \<open>\<open>LLMQueryProcessor.extractSymbol\<close>\<close>
  "extractSymbol query =
     (case rx_match (rx_upper_token 1 5) query of
        Some m \<Rightarrow> m_text m
      | None \<Rightarrow>
          (case find (\<lambda>(company, symbol). js_includes (toLowerCase query) company)
                  extract_companyMap of
             Some (company, symbol) \<Rightarrow> symbol
           | None \<Rightarrow> ''AAPL''))"

definition compare_companyMap :: "(string \<times> string) list" where
  \<comment> \<open>\<open>companyMap\<close> of the comparison rule\<close>
  "compare_companyMap =
     [(''apple'', ''AAPL''), (''microsoft'', ''MSFT''), (''google'', ''GOOGL''),
      (''amazon'', ''AMZN''), (''tesla'', ''TSLA''), (''meta'', ''META''),
      (''nvidia'', ''NVDA''), (''netflix'', ''NFLX''), (''uber'', ''UBER''),
      (''spotify'', ''SPOT'')]"

definition any_includes :: "string \<Rightarrow> string list \<Rightarrow> bool" where
  \<comment> \<open>\<open>query.includes(k1) || query.includes(k2) || ...\<close>\<close>
  "any_includes query ks = list_ex (js_includes query) ks"

definition result :: "string \<Rightarrow> (string \<times> json) list \<Rightarrow> string \<Rightarrow> real \<Rightarrow> classification" where
  \<comment> \<open>the object literal every rule returns\<close>
  "result t ps why conf =
     \<lparr>tool = t, parameters = JObj ps, reasoning = Some (JStr why),
      confidence = Fin conf, source = ''enhanced_fallback''\<rparr>"

definition comparison_symbols :: "string \<Rightarrow> string list" where
  \<comment> \<open>\<open>uniqueSymbols\<close> of the comparison rule: the mapped company names found in the
      lowered query, then the tokens of 3 to 5 capitals of the query as typed\<close>
  "comparison_symbols userQuery =
     uniq (map snd (filter (\<lambda>(company, symbol). js_includes (toLowerCase userQuery) company)
                      compare_companyMap)
           @ (case match_g (rx_upper_token 3 5) userQuery of None \<Rightarrow> [] | Some found \<Rightarrow> found))"

definition fallbackProcessing :: "string \<Rightarrow> classification" where
  "fallbackProcessing userQuery =
    (let query = toLowerCase userQuery;
         count = (case rx_match rx_digits query of
                    Some m \<Rightarrow> parseInt (group m 1)
                  | None \<Rightarrow> Fin 5)
     in
     if any_includes query [''compare'', ''vs'', ''versus'', ''comparison'', ''side by side''] then
       (let uniqueSymbols = comparison_symbols userQuery;
            firstSymbol = (case uniqueSymbols of [] \<Rightarrow> ''AAPL''
                           | x # xs \<Rightarrow> if x = [] then ''AAPL'' else x)
        in result ''get_quote'' [(''symbol'', JStr firstSymbol)]
             (''Comparison query detected with symbols: '' @ join '', '' uniqueSymbols
              @ ''. Using first symbol for fallback.'')
             0.85)
     else if any_includes query [''top'', ''best'', ''highest'', ''most'', ''list'', ''show me''] then
       (if js_includes query ''dividend'' then
          result ''get_screener''
            [(''criteria'', JStr ''dividend_yield''), (''count'', JNum count),
             (''sort'', JStr ''dividend_yield_desc'')]
            ''Query appears to be asking for high dividend stocks'' 0.9
        else if any_includes query [''market cap'', ''marketcap'', ''largest''] then
          result ''get_trending_stocks'' [(''count'', JNum count)]
            ''Query appears to be asking for top stocks by market cap'' 0.8
        else if any_includes query [''performing'', ''gaining'', ''winning''] then
          result ''get_trending_stocks'' [(''count'', JNum count)]
            ''Query appears to be asking for top performing stocks'' 0.8
        else
          result ''get_trending_stocks'' [(''count'', JNum count)]
            ''Query appears to be asking for top/trending stocks'' 0.7)
     else if any_includes query [''quote'', ''price'', ''stock'', ''current'', ''latest''] then
       result ''get_quote'' [(''symbol'', JStr (extractSymbol userQuery))]
         ''Query appears to be asking for current stock quote/price'' 0.8
     else if any_includes query [''historical'', ''chart'', ''history'', ''past'', ''performance''] then
       result ''get_historical_data'' [(''symbol'', JStr (extractSymbol userQuery))]
         ''Query appears to be asking for historical data or charts'' 0.8
     else if any_includes query [''trending'', ''top'', ''popular'', ''most active'', ''hot''] then
       result ''get_trending_stocks'' [(''count'', JNum count)]
         ''Query appears to be asking for trending or popular stocks'' 0.8
     else if any_includes query
           [''reit etf'', ''real estate etf'', ''real estate investment trust'', ''reit fund''] then
       result ''search_symbols'' [(''query'', JStr ''REIT ETF real estate'')]
         ''Query specifically mentions REIT ETFs - using search to find real estate ETFs'' 0.95
     else if any_includes query
           [''bond etf'', ''bond fund'', ''fixed income etf'', ''treasury etf''] then
       result ''search_symbols'' [(''query'', JStr ''bond ETF treasury fixed income'')]
         ''Query specifically mentions bond ETFs - using search to find fixed income ETFs'' 0.95
     else if any_includes query
           [''tech etf'', ''technology etf'', ''sector etf'', ''sector fund''] then
       result ''search_symbols'' [(''query'', JStr ''technology ETF sector'')]
         ''Query specifically mentions sector ETFs - using search to find sector-specific ETFs''
         0.95
     else if any_includes query
           [''etf'', ''exchange traded fund'', ''diversified investing'', ''popular etf''] then
       result ''get_trending_etfs'' [(''count'', JNum count)]
         ''Query appears to be asking for general/popular ETFs'' 0.9
     else if any_includes query [''search'', ''find'', ''company'', ''symbol'', ''ticker''] then
       result ''search_symbols'' [(''query'', JStr userQuery)]
         ''Query appears to be a search request for symbols or companies'' 0.8
     else if any_includes query [''news'', ''headlines''] then
       result ''get_news'' [(''symbol'', JStr (extractSymbol userQuery)), (''count'', JNum count)]
         ''Query appears to be asking for news'' 0.8
     else if any_includes query [''insights'', ''analysis'', ''technical''] then
       result ''get_insights'' [(''symbol'', JStr (extractSymbol userQuery))]
         ''Query appears to be asking for technical analysis or insights'' 0.8
     else if any_includes query [''market'', ''summary'', ''overview''] then
       result ''get_market_summary'' []
         ''Query appears to be asking for market summary or overview'' 0.8
     else if any_includes query [''recommendations'', ''analyst''] then
       result ''get_recommendations'' [(''symbol'', JStr (extractSymbol userQuery))]
         ''Query appears to be asking for analyst recommendations'' 0.8
     else
       result ''get_trending_stocks'' [(''count'', JNum count)]
         ''Default fallback to trending stocks'' 0.6)"


section \<open>The world outside the program\<close>

datatype js_error = Error string | TypeError | SyntaxError

datatype reply = NoBody | Body "json option"

record tool_info =
  tool_name :: string
  tool_description :: "string option"
  tool_required :: "string list"

record content_item =
  item_type :: string
  item_text :: "string option"

record mcp_result =
  result_content :: "content_item list option"
  result_tools :: "tool_info list option"

datatype request = ToolsList | ToolsCall string "(string \<times> json) list"

text \<open>
  Everything the program reads from outside is a field of the world: the answer of the
  model endpoint to the status probe (the names of its models, or the rejection of the
  call) and to the generation call (\<open>NoBody\<close> when the response has no \<open>data\<close>, else
  the value of \<open>data.response\<close>); the answer of the protocol server to a request, which
  may depend on the requests sent before; and two built-ins of the platform, taken as
  they are: \<open>JSON.parse\<close> (\<open>None\<close> when it throws; an object has each key once) and the
  conversion to a number of a text, an array or an object.
\<close>

record world =
  tags_reply :: "js_error + string list"
  generate_reply :: "js_error + reply"
  JSON_parse :: "string \<Rightarrow> json option"
  ToNumber_other :: "json \<Rightarrow> jsnum"
  mcp :: "request list \<Rightarrow> request \<Rightarrow> js_error + mcp_result"

definition sendToMCP :: "world \<Rightarrow> request list \<Rightarrow> request \<Rightarrow> (js_error + mcp_result) \<times> request list" where
  \<comment> \<open>one request to the protocol server; the second component is the requests sent so
      far. \<open>Inl\<close> is the rejected promise: server not running, or the timeout.\<close>
  "sendToMCP w trace req = (mcp w trace req, trace @ [req])"

section \<open>The LLM-backed classifier (llm-query-processor.js)\<close>

definition model :: string where
  "model = ''phi3:mini''"

definition checkOllamaStatus :: "world \<Rightarrow> bool" where
  \<comment> \<open>false when the probe is rejected or lists no model whose name includes the part of
      \<open>model\<close> before the colon\<close>
  "checkOllamaStatus w =
     (case tags_reply w of
        Inl e \<Rightarrow> False
      | Inr names \<Rightarrow> list_ex (\<lambda>n. js_includes n (takeWhile (\<lambda>c. c \<noteq> CHR '':'') model)) names)"

definition fence :: string where
  "fence = [CHR 0x60, CHR 0x60, CHR 0x60]"

definition rx_fence_json :: rx where
  \<comment> \<open>three backquotes, \<open>json\<close>, then \<open>\s*\<close>\<close>
  "rx_fence_json = rx_seq [rx_lit (fence @ ''json''), Star (Sat is_space)]"

definition rx_fence :: rx where
  \<comment> \<open>three backquotes, then \<open>\s*\<close>\<close>
  "rx_fence = rx_seq [rx_lit fence, Star (Sat is_space)]"

definition rx_braces :: rx where
  \<comment> \<open>\<open>\{[\s\S]*\}\<close>\<close>
  "rx_braces = rx_seq [rx_lit ''{'', Star (Sat (\<lambda>c. True)), rx_lit ''}'']"

definition rx_double_zero :: rx where
  \<comment> \<open>\<open>00\.(\d+)\<close>\<close>
  "rx_double_zero = rx_seq [rx_lit ''00.'', Grp 1 (rx_plus (Sat is_digit))]"

definition rx_trailing_comma :: rx where
  \<comment> \<open>\<open>,(\s*[}\]])\<close>\<close>
  "rx_trailing_comma =
     rx_seq [rx_lit '','', Grp 1 (Seq (Star (Sat is_space)) (Sat (\<lambda>c. c = CHR ''}'' \<or> c = CHR '']'')))]"

definition dollar1 :: "rmatch \<Rightarrow> string" where
  \<comment> \<open>\<open>$1\<close> in a replacement\<close>
  "dollar1 m = (case group m 1 of None \<Rightarrow> [] | Some g \<Rightarrow> g)"

definition field :: "json \<Rightarrow> string \<Rightarrow> json option" where
  \<comment> \<open>\<open>v.key\<close> for a key that no text, array or function has; \<open>v\<close> is not null\<close>
  "field v k = (case v of JObj kvs \<Rightarrow> get_prop kvs k | _ \<Rightarrow> None)"

fun ToNumber :: "world \<Rightarrow> json \<Rightarrow> jsnum" where
  "ToNumber w (JNum n) = n"
| "ToNumber w (JBool b) = Fin (if b then 1 else 0)"
| "ToNumber w JNull = Fin 0"
| "ToNumber w v = ToNumber_other w v"

definition clamp_confidence :: "world \<Rightarrow> json option \<Rightarrow> jsnum" where
  \<comment> \<open>\<open>Math.min(Math.max(result.confidence || 0.8, 0), 1)\<close>\<close>
  "clamp_confidence w c =
     Math_min (Math_max (ToNumber w (if truthy c then the c else JNum (Fin 0.8))) (Fin 0)) (Fin 1)"

definition repair :: "string \<Rightarrow> string option" where
  \<comment> \<open>the text handed to \<open>JSON.parse\<close>: the fences stripped, the first brace to the last
      one kept, the two fixes applied; \<open>None\<close> when the text has no such braces\<close>
  "repair text =
     (let cleanedResponse =
            replace_g rx_fence (\<lambda>m. []) (replace_g rx_fence_json (\<lambda>m. []) (trim text))
      in case rx_match rx_braces cleanedResponse of
           None \<Rightarrow> None
         | Some jsonMatch \<Rightarrow>
             Some (replace_g rx_trailing_comma dollar1
                     (replace_g rx_double_zero (\<lambda>m. ''0.'' @ dollar1 m) (m_text jsonMatch))))"

definition parse_response :: "world \<Rightarrow> string list \<Rightarrow> json option \<Rightarrow> js_error + classification option" where
  \<comment> \<open>the inner \<open>try\<close> block of \<open>processQuery\<close>: \<open>Inr (Some r)\<close> when it returns \<open>r\<close>,
      \<open>Inr None\<close> when it falls through, \<open>Inl\<close> when it throws (\<open>trim\<close> of a value that
      is no text, \<open>JSON.parse\<close>, a property of null)\<close>
  "parse_response w availableTools responseText =
     (case responseText of
        Some (JStr text) \<Rightarrow>
          (case repair text of
             None \<Rightarrow> Inr None
           | Some jsonStr \<Rightarrow>
               (case JSON_parse w jsonStr of
                  None \<Rightarrow> Inl SyntaxError
                | Some JNull \<Rightarrow> Inl TypeError
                | Some res \<Rightarrow>
                    (case field res ''tool'' of
                       Some (JStr t) \<Rightarrow>
                         if t \<in> set availableTools then
                           Inr (Some \<lparr>tool = t,
                             parameters =
                               (if truthy (field res ''parameters'')
                                then the (field res ''parameters'') else JObj []),
                             reasoning = field res ''reasoning'',
                             confidence = clamp_confidence w (field res ''confidence''),
                             source = ''llm''\<rparr>)
                         else Inr None
                     | _ \<Rightarrow> Inr None)))
      | _ \<Rightarrow> Inl TypeError)"

definition processQuery_try :: "world \<Rightarrow> string list \<Rightarrow> string \<Rightarrow> js_error + classification" where
  \<comment> \<open>the outer \<open>try\<close> block of \<open>processQuery\<close>; what the inner block throws is caught
      there and execution goes on to the rule-based classifier. \<open>createToolsContext\<close>
      builds a text that the prompt does not use, and throws nothing.\<close>
  "processQuery_try w availableTools userQuery =
     (if \<not> checkOllamaStatus w then Inr (fallbackProcessing userQuery)
      else
        case generate_reply w of
          Inl e \<Rightarrow> Inl e
        | Inr NoBody \<Rightarrow> Inl TypeError
        | Inr (Body responseText) \<Rightarrow>
            (case parse_response w availableTools responseText of
               Inr (Some r) \<Rightarrow> Inr r
             | Inr None \<Rightarrow> Inr (fallbackProcessing userQuery)
             | Inl parseError \<Rightarrow> Inr (fallbackProcessing userQuery)))"

definition processQuery :: "world \<Rightarrow> string list \<Rightarrow> string \<Rightarrow> js_error + classification" where
  \<comment> \<open>\<open>Inl\<close> would be an exception thrown to the caller\<close>
  "processQuery w availableTools userQuery =
     (case processQuery_try w availableTools userQuery of
        Inl e \<Rightarrow> Inr (fallbackProcessing userQuery)
      | Inr r \<Rightarrow> Inr r)"


definition llm_unavailable :: "world \<Rightarrow> bool" where
  \<comment> \<open>the model endpoint cannot be used: the status probe fails, or the generation call
      is rejected (no connection, the timeout, an error status)\<close>
  "llm_unavailable w = (\<not> checkOllamaStatus w \<or> isl (generate_reply w))"

section \<open>The tool registry (mcp-http-bridge.js)\<close>

record capabilities =
  cap_keywords :: "string list"
  requiresSymbol :: bool
  requiresCount :: bool
  requiresQuery :: bool
  category :: string

fun split :: "char \<Rightarrow> string \<Rightarrow> string list" where
  \<comment> \<open>\<open>s.split(sep)\<close> for a separator of one character\<close>
  "split sep [] = [[]]"
| "split sep (c # cs) =
     (if c = sep then [] # split sep cs
      else (case split sep cs of [] \<Rightarrow> [[c]] | x # xs \<Rightarrow> (c # x) # xs))"

definition extractToolCapabilities :: "tool_info \<Rightarrow> capabilities" where
  "extractToolCapabilities t =
     (let name = toLowerCase (tool_name t);
          description = toLowerCase (case tool_description t of None \<Rightarrow> [] | Some d \<Rightarrow> d)
      in \<lparr>cap_keywords =
            filter (\<lambda>k. length k > 2) (split CHR ''_'' name @ split CHR '' '' description),
          requiresSymbol = any_includes name [''quote'', ''historical'', ''chart'', ''insights''],
          requiresCount = any_includes name [''trending'', ''gainers'', ''screener''],
          requiresQuery = any_includes name [''search'', ''symbols''],
          category =
            (if js_includes name ''trending'' then ''trending''
             else if js_includes name ''quote'' \<or> js_includes name ''price'' then ''quotes''
             else if js_includes name ''historical'' then ''historical_chart''
             else if js_includes name ''chart'' then ''chart_data''
             else if js_includes name ''insights'' then ''insights''
             else if js_includes name ''search'' then ''search''
             else if js_includes name ''etf'' then ''etfs''
             else if js_includes name ''gainer'' then ''gainers''
             else ''general'')\<rparr>)"

text \<open>
  The bridge keeps two maps, \<open>availableTools\<close> and \<open>toolCapabilities\<close>, and the classifier
  a set of tool names. All three are written only by \<open>discoverAvailableTools\<close>, entry by
  entry from the same tool, so the registry is one map from a name to its tool; the
  capabilities of a name are those extracted from its tool, and the classifier's set is
  the keys.
\<close>

type_synonym registry = "(string \<times> tool_info) list"

fun map_set :: "('k \<times> 'v) list \<Rightarrow> 'k \<Rightarrow> 'v \<Rightarrow> ('k \<times> 'v) list" where
  \<comment> \<open>\<open>Map.set\<close>: a key that exists keeps its place\<close>
  "map_set [] k v = [(k, v)]"
| "map_set ((k', v') # kvs) k v =
     (if k' = k then (k, v) # kvs else (k', v') # map_set kvs k v)"

definition availableTools_get :: "registry \<Rightarrow> string \<Rightarrow> tool_info option" where
  "availableTools_get reg n = map_of reg n"

definition toolCapabilities_get :: "registry \<Rightarrow> string \<Rightarrow> capabilities option" where
  "toolCapabilities_get reg n = map_option extractToolCapabilities (map_of reg n)"

definition availableTools_keys :: "registry \<Rightarrow> string list" where
  "availableTools_keys reg = map fst reg"

definition discoverAvailableTools :: "world \<Rightarrow> registry \<Rightarrow> request list \<Rightarrow> registry \<times> request list" where
  \<comment> \<open>a rejected listing is caught and leaves the registry as it was\<close>
  "discoverAvailableTools w reg trace =
     (case sendToMCP w trace ToolsList of
        (Inl e, trace') \<Rightarrow> (reg, trace')
      | (Inr response, trace') \<Rightarrow>
          (foldl (\<lambda>r t. map_set r (tool_name t) t) []
             (case result_tools response of None \<Rightarrow> [] | Some ts \<Rightarrow> ts),
           trace'))"

section \<open>Symbol resolution of the bridge (mcp-http-bridge.js)\<close>

definition known_companies :: "string list" where
  \<comment> \<open>the alternatives of the first pattern of \<open>extractCompanyNames\<close>, in its order\<close>
  "known_companies =
     [''apple'', ''microsoft'', ''google'', ''amazon'', ''tesla'', ''meta'', ''nvidia'',
      ''netflix'', ''amd'', ''intel'', ''palantir'', ''coinbase'', ''berkshire'', ''jpmorgan'',
      ''walmart'', ''coca cola'', ''pepsi'', ''disney'', ''nike'', ''home depot'', ''lowes'',
      ''target'', ''costco'', ''mcdonalds'', ''starbucks'', ''boeing'', ''general electric'',
      ''general motors'', ''ford motor'', ''ford'']"

definition rx_known_company :: rx where
  \<comment> \<open>\<open>\b(apple|microsoft|...)\b\<close> under the flags \<open>gi\<close>\<close>
  "rx_known_company = rx_seq [WordB, Grp 1 (rx_alt (map rx_lit_i known_companies)), WordB]"

definition rx_words :: rx where
  \<comment> \<open>\<open>([a-z]+(?:\s+[a-z]+)*)\<close> under the flag \<open>i\<close>\<close>
  "rx_words =
     Grp 1 (Seq (rx_plus (Sat is_letter))
                (Star (Seq (rx_plus (Sat is_space)) (rx_plus (Sat is_letter)))))"

definition rx_suffixed :: "string list \<Rightarrow> rx" where
  \<comment> \<open>\<open>\b([a-z]+(?:\s+[a-z]+)*)\s+(s1|s2|...)\b\<close> under the flags \<open>gi\<close>\<close>
  "rx_suffixed suffixes =
     rx_seq [WordB, rx_words, rx_plus (Sat is_space), Grp 2 (rx_alt (map rx_lit_i suffixes)),
             WordB]"

definition company_patterns :: "rx list" where
  "company_patterns =
     [rx_known_company,
      rx_suffixed [''inc'', ''corp'', ''corporation'', ''company'', ''co'', ''llc'', ''ltd'',
                   ''limited''],
      rx_suffixed [''technologies'', ''tech'', ''systems'', ''solutions'', ''group'',
                   ''holdings'', ''industries'']]"

definition extractCompanyNames :: "string \<Rightarrow> string list" where
  "extractCompanyNames message =
     uniq (concat (map (\<lambda>pattern.
        concat (map (\<lambda>m.
          (let company = (case group m 1 of
                            None \<Rightarrow> m_text m
                          | Some g \<Rightarrow> if g = [] then m_text m else g)
           in if company \<noteq> [] \<and> length company > 2 then [trim company] else []))
          (matchAll pattern message)))
        company_patterns))"

definition bridge_companyMap :: "(string \<times> string) list" where
  \<comment> \<open>\<open>companyMap\<close> of the bridge's \<open>extractSymbol\<close>\<close>
  "bridge_companyMap =
     [(''microsoft'', ''MSFT''), (''apple'', ''AAPL''), (''google'', ''GOOGL''),
      (''amazon'', ''AMZN''), (''tesla'', ''TSLA''), (''meta'', ''META''),
      (''nvidia'', ''NVDA''), (''netflix'', ''NFLX''), (''amd'', ''AMD''), (''intel'', ''INTC''),
      (''ford'', ''F''), (''berkshire'', ''BRK.B''), (''jpmorgan'', ''JPM''),
      (''walmart'', ''WMT''), (''disney'', ''DIS''), (''nike'', ''NKE''), (''boeing'', ''BA''),
      (''general electric'', ''GE''), (''general motors'', ''GM'')]"

definition bridge_companyMap_get :: "string \<Rightarrow> json option" where
  \<comment> \<open>\<open>companyMap[companyName]\<close> for a name of lower-case letters and spaces: an entry
      of the literal, or the \<open>constructor\<close> it inherits\<close>
  "bridge_companyMap_get n =
     (if n = ''constructor'' then Some JFunc else map_option JStr (map_of bridge_companyMap n))"

fun find_stock :: "json list \<Rightarrow> js_error + json option" where
  \<comment> \<open>\<open>searchResults.find(r => r.quoteType === 'EQUITY' || r.quoteType === 'STOCK')\<close>;
      reading \<open>quoteType\<close> of a null entry throws\<close>
  "find_stock [] = Inr None"
| "find_stock (JNull # rs) = Inl TypeError"
| "find_stock (r # rs) =
     (if field r ''quoteType'' = Some (JStr ''EQUITY'') \<or> field r ''quoteType'' = Some (JStr ''STOCK'')
      then Inr (Some r) else find_stock rs)"

definition search_symbol :: "world \<Rightarrow> mcp_result \<Rightarrow> json option" where
  \<comment> \<open>what the \<open>try\<close> block of the search tier leaves in \<open>symbol\<close>, given the response;
      every exception in it is caught and leaves \<open>symbol\<close> null\<close>
  "search_symbol w response =
     (case result_content response of
        Some (item # items) \<Rightarrow>
          (case item_text item of
             None \<Rightarrow> None
           | Some t \<Rightarrow>
               (case JSON_parse w t of
                  Some (JArr (r # rs)) \<Rightarrow>
                    (case find_stock (r # rs) of
                       Inl e \<Rightarrow> None
                     | Inr (Some stockResult) \<Rightarrow> field stockResult ''symbol''
                     | Inr None \<Rightarrow> field r ''symbol'')
                | _ \<Rightarrow> None))
      | _ \<Rightarrow> None)"

definition bridge_extractSymbol :: "world \<Rightarrow> request list \<Rightarrow> string \<Rightarrow> json option \<times> request list" where
  \<comment> \<open>\<open>extractSymbol\<close> of the bridge: the symbol (\<open>None\<close> for null or undefined) and the
      requests sent so far\<close>
  "bridge_extractSymbol w trace message =
     (case rx_match (rx_seq [WordB, Grp 1 (rx_rep 1 5 (Sat is_upper)), WordB]) message of
        Some symbolMatch \<Rightarrow> (map_option JStr (group symbolMatch 1), trace)
      | None \<Rightarrow>
          (case extractCompanyNames message of
             [] \<Rightarrow> (None, trace)
           | c # cs \<Rightarrow>
               (if truthy (bridge_companyMap_get (toLowerCase c))
                then (bridge_companyMap_get (toLowerCase c), trace)
                else
                  (case sendToMCP w trace (ToolsCall ''search_symbols'' [(''query'', JStr c)]) of
                     (Inl e, trace') \<Rightarrow> (None, trace')
                   | (Inr response, trace') \<Rightarrow> (search_symbol w response, trace')))))"


section \<open>The analyze endpoint (mcp-http-bridge.js)\<close>

record http_response =
  status :: nat
  r_error :: "js_error option"
  r_content :: string
  r_data :: json
  widgetType :: string
  r_query :: "string option"
  toolUsed :: "string option"

definition fallbacks_for :: "string \<Rightarrow> string list" where
  \<comment> \<open>the table \<open>fallbacks\<close>\<close>
  "fallbacks_for t =
     (if t = ''get_screener'' then [''get_trending_stocks'', ''search_symbols'']
      else if t = ''get_trending_stocks'' then [''search_symbols'']
      else if t = ''get_quote'' then [''search_symbols'']
      else if t = ''search_symbols'' then [''get_trending_stocks'']
      else [])"

fun show_nat :: "nat \<Rightarrow> string" where
  \<comment> \<open>the decimal text of an index\<close>
  "show_nat n =
     (if n < 10 then [char_of (48 + n)] else show_nat (n div 10) @ [char_of (48 + n mod 10)])"

fun indexed :: "nat \<Rightarrow> json list \<Rightarrow> (string \<times> json) list" where
  "indexed i [] = []"
| "indexed i (x # xs) = (show_nat i, x) # indexed (Suc i) xs"

fun spread :: "json \<Rightarrow> (string \<times> json) list" where
  \<comment> \<open>\<open>{ ...v }\<close>: the own properties of an object, the entries of an array, the
      characters of a text, nothing of another value\<close>
  "spread (JObj kvs) = kvs"
| "spread (JArr xs) = indexed 0 xs"
| "spread (JStr cs) = indexed 0 (map (\<lambda>c. JStr [c]) cs)"
| "spread v = []"

definition tool_not_found :: "registry \<Rightarrow> string \<Rightarrow> http_response" where
  "tool_not_found reg t =
     \<lparr>status = 200, r_error = None,
      r_content = ''Tool '' @ dq @ t @ dq @ '' not found. Available tools: ''
                  @ join '', '' (availableTools_keys reg),
      r_data = JObj [(''error'', JStr ''Tool not found'')],
      widgetType = ''error'', r_query = None, toolUsed = None\<rparr>"

definition no_symbol_found :: "string \<Rightarrow> http_response" where
  "no_symbol_found message =
     \<lparr>status = 200, r_error = None,
      r_content = ''I couldn't identify a stock symbol in your message: '' @ dq @ message @ dq
        @ ''. Please specify a stock symbol (like AAPL, MSFT) or company name (like Apple, Microsoft).'',
      r_data = JObj [(''error'', JStr ''No symbol found'')],
      widgetType = ''error'', r_query = None, toolUsed = None\<rparr>"

definition analyze_failed :: "js_error \<Rightarrow> http_response" where
  \<comment> \<open>the \<open>catch\<close> block of the handler\<close>
  "analyze_failed e =
     \<lparr>status = 500, r_error = Some e, r_content = ''Failed to analyze message'',
      r_data = JObj [], widgetType = ''error'', r_query = None, toolUsed = None\<rparr>"

definition rx_search_prefix :: rx where
  \<comment> \<open>\<open>search.*?(?:for|symbol|ticker|find)\<close> under the flag \<open>i\<close>\<close>
  "rx_search_prefix =
     rx_seq [rx_lit_i ''search'', LazyStar (Sat is_dot),
             rx_alt (map rx_lit_i [''for'', ''symbol'', ''ticker'', ''find''])]"

fun resolve_params ::
  "world \<Rightarrow> string \<Rightarrow> string \<Rightarrow> string list \<Rightarrow> (string \<times> json) list \<Rightarrow> request list
   \<Rightarrow> (http_response + (string \<times> json) list) \<times> request list" where
  \<comment> \<open>the loop over the required parameters: \<open>Inl\<close> is the response it returns early\<close>
  "resolve_params w t message [] toolArgs trace = (Inr toolArgs, trace)"
| "resolve_params w t message (param # params) toolArgs trace =
     (if truthy (get_prop toolArgs param) then resolve_params w t message params toolArgs trace
      else if param = ''symbol'' then
        (case bridge_extractSymbol w trace message of
           (symbol, trace') \<Rightarrow>
             if \<not> truthy symbol then (Inl (no_symbol_found message), trace')
             else resolve_params w t message params
                    (set_prop toolArgs ''symbol'' (the symbol)) trace')
      else if param = ''count'' then
        resolve_params w t message params
          (set_prop toolArgs ''count''
             (JNum (case rx_match rx_digits message of
                      Some countMatch \<Rightarrow> parseInt (group countMatch 1)
                    | None \<Rightarrow> Fin 5)))
          trace
      else if param = ''query'' then
        resolve_params w t message params
          (set_prop toolArgs ''query''
             (JStr (if t = ''search_symbols'' then
                      (let searchQuery = trim (replace_first rx_search_prefix (\<lambda>m. []) message)
                       in if searchQuery \<noteq> [] then searchQuery else trim message)
                    else message)))
          trace
      else resolve_params w t message params toolArgs trace)"

definition has_error_marker :: "mcp_result \<Rightarrow> bool" where
  \<comment> \<open>\<open>response.result?.content?.[0]?.text?.includes('Error:')\<close>\<close>
  "has_error_marker response =
     (case result_content response of
        Some (item # items) \<Rightarrow>
          (case item_text item of None \<Rightarrow> False | Some t \<Rightarrow> js_includes t ''Error:'')
      | _ \<Rightarrow> False)"

record exec_state =
  ex_trace :: "request list"
  ex_name :: string
  ex_args :: "(string \<times> json) list"
  ex_response :: "mcp_result option"
  ex_lastError :: "js_error option"

fun try_fallbacks :: "world \<Rightarrow> string \<Rightarrow> string list \<Rightarrow> exec_state \<Rightarrow> exec_state" where
  \<comment> \<open>the loop over \<open>fallbacks\<close>; \<open>ex_name\<close> and \<open>ex_args\<close> are \<open>mcpRequest.params\<close>\<close>
  "try_fallbacks w message [] st = st"
| "try_fallbacks w message (fallbackTool # others) st =
     (let args = (if fallbackTool = ''search_symbols'' then [(''query'', JStr (trim message))]
                  else ex_args st)
      in case sendToMCP w (ex_trace st) (ToolsCall fallbackTool args) of
           (Inl fallbackError, trace') \<Rightarrow>
             try_fallbacks w message others
               (st\<lparr>ex_trace := trace', ex_name := fallbackTool, ex_args := args,
                   ex_lastError := Some fallbackError\<rparr>)
         | (Inr response, trace') \<Rightarrow>
             if \<not> has_error_marker response then
               st\<lparr>ex_trace := trace', ex_name := fallbackTool, ex_args := args,
                  ex_response := Some response\<rparr>
             else
               try_fallbacks w message others
                 (st\<lparr>ex_trace := trace', ex_name := fallbackTool, ex_args := args,
                     ex_response := Some response\<rparr>))"

definition execute :: "world \<Rightarrow> string \<Rightarrow> string \<Rightarrow> (string \<times> json) list \<Rightarrow> request list \<Rightarrow> exec_state" where
  \<comment> \<open>the primary call, then the fallbacks when it is rejected or carries the marker\<close>
  "execute w message t toolArgs trace =
     (case sendToMCP w trace (ToolsCall t toolArgs) of
        (Inl e, trace') \<Rightarrow>
          try_fallbacks w message (fallbacks_for t)
            \<lparr>ex_trace = trace', ex_name = t, ex_args = toolArgs, ex_response = None,
             ex_lastError = Some e\<rparr>
      | (Inr response, trace') \<Rightarrow>
          if has_error_marker response then
            try_fallbacks w message (fallbacks_for t)
              \<lparr>ex_trace = trace', ex_name = t, ex_args = toolArgs, ex_response = Some response,
               ex_lastError = Some (Error ''Tool returned error'')\<rparr>
          else
            \<lparr>ex_trace = trace', ex_name = t, ex_args = toolArgs, ex_response = Some response,
             ex_lastError = None\<rparr>)"

definition toolToWidgetMap :: "(string \<times> string) list" where
  "toolToWidgetMap =
     [(''get_insights'', ''insights''), (''get_chart'', ''chart_data''),
      (''get_quote_summary'', ''quote_summary''),
      (''get_fundamentals_timeseries'', ''fundamentals''),
      (''fundamentals_analysis'', ''fundamentals''),
      (''get_trending_symbols'', ''trending_symbols''), (''get_daily_gainers'', ''gainers''),
      (''get_screener'', ''screener''), (''get_autoc'', ''autoc''),
      (''get_trending_etfs'', ''etfs''), (''get_trending_stocks'', ''trending''),
      (''get_quote'', ''quotes''), (''get_historical_data'', ''historical_chart''),
      (''search_symbols'', ''search'')]"

definition widget_for :: "registry \<Rightarrow> string \<Rightarrow> string" where
  \<comment> \<open>the widget type of the tool named in the request: the category of its
      capabilities, else its entry in the static table, else \<open>general\<close>. The table is read
      only for a name outside the registry, which is a name of \<open>fallbacks\<close>.\<close>
  "widget_for reg toolName =
     (case toolCapabilities_get reg toolName of
        Some c \<Rightarrow> category c
      | None \<Rightarrow> (case map_of toolToWidgetMap toolName of Some wt \<Rightarrow> wt | None \<Rightarrow> ''general''))"

definition financialData :: "world \<Rightarrow> mcp_result \<Rightarrow> json" where
  "financialData w res =
     (case result_content res of
        None \<Rightarrow> JObj []
      | Some items \<Rightarrow>
          (case find (\<lambda>c. item_type c = ''text'') items of
             None \<Rightarrow> JObj []
           | Some textContent \<Rightarrow>
               (case item_text textContent of
                  None \<Rightarrow> JObj []
                | Some t \<Rightarrow>
                    if t = [] then JObj []
                    else (case JSON_parse w t of
                            Some parsed \<Rightarrow> parsed
                          | None \<Rightarrow> JObj [(''message'', JStr t)]))))"

definition respond :: "world \<Rightarrow> registry \<Rightarrow> string \<Rightarrow> string \<Rightarrow> exec_state \<Rightarrow> http_response" where
  \<comment> \<open>from \<open>if (!response)\<close> to the end of the handler\<close>
  "respond w reg message t st =
     (case ex_response st of
        None \<Rightarrow>
          analyze_failed (case ex_lastError st of Some e \<Rightarrow> e | None \<Rightarrow> Error ''All tools failed'')
      | Some response \<Rightarrow>
          \<lparr>status = 200, r_error = None,
           r_content = ''Analysis completed for: '' @ message,
           r_data = financialData w response,
           widgetType = (if ex_name st \<noteq> [] then widget_for reg (ex_name st) else ''general''),
           r_query = Some message,
           toolUsed = Some t\<rparr>)"

definition ensure_discovered :: "world \<Rightarrow> registry \<Rightarrow> registry \<times> request list" where
  \<comment> \<open>\<open>if (availableTools.size === 0) await discoverAvailableTools()\<close>\<close>
  "ensure_discovered w reg0 = (if reg0 = [] then discoverAvailableTools w reg0 [] else (reg0, []))"

definition prepare ::
  "world \<Rightarrow> registry \<Rightarrow> string
   \<Rightarrow> (http_response \<times> request list \<times> registry)
      + (registry \<times> string \<times> (string \<times> json) list \<times> request list)" where
  \<comment> \<open>the handler of \<open>POST /analyze\<close> up to the request for the primary tool: \<open>Inl\<close> is
      a response sent before any tool runs, \<open>Inr\<close> the registry, the tool, its arguments
      and the requests sent so far\<close>
  "prepare w reg0 message =
     (case ensure_discovered w reg0 of
        (reg, trace0) \<Rightarrow>
          (case processQuery w (availableTools_keys reg) message of
             Inl e \<Rightarrow> Inl (analyze_failed e, trace0, reg)
           | Inr llmResult \<Rightarrow>
               (case availableTools_get reg (tool llmResult) of
                  None \<Rightarrow> Inl (tool_not_found reg (tool llmResult), trace0, reg)
                | Some toolInfo \<Rightarrow>
                    (case resolve_params w (tool llmResult) message (tool_required toolInfo)
                            (spread (parameters llmResult)) trace0 of
                       (Inl early, trace1) \<Rightarrow> Inl (early, trace1, reg)
                     | (Inr toolArgs, trace1) \<Rightarrow>
                         Inr (reg, tool llmResult, toolArgs, trace1)))))"

definition analyze :: "world \<Rightarrow> registry \<Rightarrow> string \<Rightarrow> http_response \<times> request list \<times> registry" where
  \<comment> \<open>the handler of \<open>POST /analyze\<close>: the response, the requests sent to the protocol
      server, and the registry afterwards\<close>
  "analyze w reg0 message =
     (case prepare w reg0 message of
        Inl early \<Rightarrow> early
      | Inr (reg, t, toolArgs, trace1) \<Rightarrow>
          (let st = execute w message t toolArgs trace1
           in (respond w reg message t st, ex_trace st, reg)))"

fun req_name :: "request \<Rightarrow> string" where
  "req_name ToolsList = []"
| "req_name (ToolsCall n a) = n"

fun req_args :: "request \<Rightarrow> (string \<times> json) list" where
  "req_args ToolsList = []"
| "req_args (ToolsCall n a) = a"

definition succeeded :: "js_error + mcp_result \<Rightarrow> bool" where
  \<comment> \<open>an invocation succeeds when the call resolves and its text carries no \<open>Error:\<close>\<close>
  "succeeded out = (case out of Inl e \<Rightarrow> False | Inr response \<Rightarrow> \<not> has_error_marker response)"

section \<open>The category precedence, in the words of the specification\<close>

text \<open>
  The specification ranks substring checks on the tool's name: \<open>trending\<close>, then
  \<open>quote\<close> or \<open>price\<close>, then \<open>historical\<close>, \<open>chart\<close>, \<open>insights\<close>, \<open>search\<close>,
  \<open>etf\<close>, \<open>gainer\<close>; the first rung that matches gives the category, and \<open>general\<close>
  is the default. This definition follows those words; C6 compares it with
  \<open>extractToolCapabilities\<close>.
\<close>

definition category_by_precedence :: "string \<Rightarrow> string" where
  "category_by_precedence name =
     (case find (\<lambda>(subs, cat). any_includes name subs)
             [([''trending''], ''trending''), ([''quote'', ''price''], ''quotes''),
              ([''historical''], ''historical_chart''), ([''chart''], ''chart_data''),
              ([''insights''], ''insights''), ([''search''], ''search''), ([''etf''], ''etfs''),
              ([''gainer''], ''gainers'')] of
        Some (subs, cat) \<Rightarrow> cat
      | None \<Rightarrow> ''general'')"

section \<open>The requests of the fallback loop\<close>

text \<open>
  The requests that \<open>try_fallbacks\<close> sends, read off its equations: one for each
  alternate in turn, until one succeeds. The proofs about the loop go through this list.
\<close>

fun fb_requests :: "world \<Rightarrow> string \<Rightarrow> string list \<Rightarrow> request list \<Rightarrow> (string \<times> json) list \<Rightarrow> request list" where
  "fb_requests w m [] tr a = []"
| "fb_requests w m (fb # fbs) tr a =
     (let a' = (if fb = ''search_symbols'' then [(''query'', JStr (trim m))] else a);
          req = ToolsCall fb a'
      in req # (if succeeded (mcp w tr req) then [] else fb_requests w m fbs (tr @ [req]) a'))"

section \<open>Example worlds\<close>

definition world_down :: world where
  "world_down =
     \<lparr>tags_reply = Inl (Error ''connect ECONNREFUSED''),
      generate_reply = Inl (Error ''connect ECONNREFUSED''),
      JSON_parse = (\<lambda>s. None), ToNumber_other = (\<lambda>v. NaN),
      mcp = (\<lambda>trace req. Inl (Error ''MCP server timeout''))\<rparr>"

definition reply_zero_text :: string where
  "reply_zero_text =
     ''{'' @ dq @ ''tool'' @ dq @ '': '' @ dq @ ''get_quote'' @ dq @ '', '' @ dq @ ''confidence''
     @ dq @ '': 0}''"

definition world_llm :: "string \<Rightarrow> json \<Rightarrow> world" where
  "world_llm text parsed =
     \<lparr>tags_reply = Inr [''phi3:mini''],
      generate_reply = Inr (Body (Some (JStr text))),
      JSON_parse = (\<lambda>s. if s = text then Some parsed else None),
      ToNumber_other = (\<lambda>v. NaN),
      mcp = (\<lambda>trace req. Inl (Error ''MCP server timeout''))\<rparr>"

definition etf_tool :: tool_info where
  "etf_tool = \<lparr>tool_name = ''get_trending_etfs'',
               tool_description = Some ''Search a quote chart of gainers'', tool_required = [''count'']\<rparr>"

definition reply_zero :: json where
  "reply_zero = JObj [(''tool'', JStr ''get_quote''), (''confidence'', JNum (Fin 0))]"



definition quote_tool :: tool_info where
  "quote_tool = \<lparr>tool_name = ''get_quote'',
     tool_description = Some ''Get real-time quote data for a stock symbol'',
     tool_required = [''symbol'']\<rparr>"

definition search_tool :: tool_info where
  "search_tool = \<lparr>tool_name = ''search_symbols'',
     tool_description = Some ''Search for stock symbols by company name or ticker'',
     tool_required = [''query'']\<rparr>"

definition screener_tool :: tool_info where
  "screener_tool = \<lparr>tool_name = ''get_screener'',
     tool_description = Some ''Get stock screener results'', tool_required = []\<rparr>"

definition reg_quote :: registry where
  "reg_quote = [(''get_quote'', quote_tool), (''search_symbols'', search_tool)]"

definition reg_screener :: registry where
  "reg_screener = [(''get_screener'', screener_tool), (''search_symbols'', search_tool)]"

definition text_result :: "string \<Rightarrow> mcp_result" where
  "text_result s =
     \<lparr>result_content = Some [\<lparr>item_type = ''text'', item_text = Some s\<rparr>], result_tools = None\<rparr>"

definition world_soft :: world where
  \<comment> \<open>no model endpoint; every tool answers with the text of an error\<close>
  "world_soft = world_down\<lparr>mcp := (\<lambda>trace req. Inr (text_result ''Error: Yahoo Finance API error''))\<rparr>"


definition world_search_ok :: world where
  \<comment> \<open>no model endpoint; only \<open>search_symbols\<close> answers\<close>
  "world_search_ok =
     world_down\<lparr>mcp := (\<lambda>trace req. if req_name req = ''search_symbols''
                                    then Inr (text_result ''search results'')
                                    else Inl (Error ''MCP server timeout''))\<rparr>"


section \<open>Auxiliary facts\<close>

subsection \<open>The bounds of the matcher are never reached\<close>

text \<open>
  The repetitions take the length of the remaining text as their bound, and the search
  for all matches one more than the length of the text. A round of a repetition that
  consumes nothing is dropped and every search starts further right, so neither bound is
  reached: a larger one gives the same matches.
\<close>

lemma rx_iter_fuel:
  "length (rest s) \<le> n \<Longrightarrow> rx_iter f n s = rx_iter f (length (rest s)) s"
proof (induction n arbitrary: s rule: less_induct)
  case (less n)
  show ?case
  proof (cases "length (rest s) = n")
    case True
    then show ?thesis by simp
  next
    case False
    then obtain k where n: "n = Suc k" and le: "length (rest s) \<le> k"
      using less.prems by (cases n) auto
    have inner: "rx_iter f j t = rx_iter f (length (rest t)) t"
      if "length (rest t) \<le> j" and "j < n" for j t
      using less.IH [OF that(2) that(1)] .
    show ?thesis
    proof (cases "length (rest s)")
      case 0
      then have "filter (progress s) (f s) = []" by (simp add: progress_def)
      then show ?thesis using n 0 by simp
    next
      case (Suc m)
      have same: "map (rx_iter f k) (filter (progress s) (f s))
            = map (rx_iter f m) (filter (progress s) (f s))"
      proof (rule map_cong [OF refl])
        fix t assume "t \<in> set (filter (progress s) (f s))"
        then have lt: "length (rest t) \<le> m" using Suc by (simp add: progress_def)
        have "rx_iter f k t = rx_iter f (length (rest t)) t"
          using inner [of t k] lt le Suc n by simp
        moreover have "rx_iter f m t = rx_iter f (length (rest t)) t"
          using inner [of t m] lt le Suc n by simp
        ultimately show "rx_iter f k t = rx_iter f m t" by simp
      qed
      have "rx_iter f (Suc k) s = rx_iter f (Suc m) s"
        by (simp only: rx_iter.simps same)
      then show ?thesis by (simp only: n Suc)
    qed
  qed
qed

lemma rx_iter_rest:
  assumes "\<And>s t. t \<in> set (f s) \<Longrightarrow> length (rest t) \<le> length (rest s)"
  shows "t \<in> set (rx_iter f n s) \<Longrightarrow> length (rest t) \<le> length (rest s)"
proof (induction n arbitrary: s)
  case 0
  then show ?case by simp
next
  case (Suc n)
  from Suc.prems consider "t = s"
    | u where "u \<in> set (f s)" "progress s u" "t \<in> set (rx_iter f n u)"
    by auto
  then show ?case
  proof cases
    case 1
    then show ?thesis by simp
  next
    case 2
    then have "length (rest t) \<le> length (rest u)" using Suc.IH by blast
    then show ?thesis using 2(2) by (simp add: progress_def)
  qed
qed

lemma rx_iter_lazy_rest:
  assumes "\<And>s t. t \<in> set (f s) \<Longrightarrow> length (rest t) \<le> length (rest s)"
  shows "t \<in> set (rx_iter_lazy f n s) \<Longrightarrow> length (rest t) \<le> length (rest s)"
proof (induction n arbitrary: s)
  case 0
  then show ?case by simp
next
  case (Suc n)
  from Suc.prems consider "t = s"
    | u where "u \<in> set (f s)" "progress s u" "t \<in> set (rx_iter_lazy f n u)"
    by auto
  then show ?case
  proof cases
    case 1
    then show ?thesis by simp
  next
    case 2
    then have "length (rest t) \<le> length (rest u)" using Suc.IH by blast
    then show ?thesis using 2(2) by (simp add: progress_def)
  qed
qed

lemma rx_run_rest: "t \<in> set (rx_run r s) \<Longrightarrow> length (rest t) \<le> length (rest s)"
proof (induction r arbitrary: s t)
  case (Sat p)
  then show ?case by (cases "rest s") (auto simp: rest_def split: if_splits)
next
  case WordB
  then show ?case by (auto split: if_splits)
next
  case Eps
  then show ?case by simp
next
  case (Seq a b)
  then obtain u where "u \<in> set (rx_run a s)" "t \<in> set (rx_run b u)" by auto
  then show ?case using Seq.IH by (meson order_trans)
next
  case (Alt a b)
  then have "t \<in> set (rx_run a s) \<or> t \<in> set (rx_run b s)" by simp
  then show ?case using Alt.IH by blast
next
  case (Star a)
  then show ?case using rx_iter_rest [of "rx_run a"] by simp
next
  case (LazyStar a)
  then show ?case using rx_iter_lazy_rest [of "rx_run a"] by simp
next
  case (Grp i a)
  then obtain u where "u \<in> set (rx_run a s)" and "rest t = rest u"
    by (auto simp: rest_def)
  then show ?case using Grp.IH by metis
qed

lemma rx_iter_total:
  assumes "\<And>s t. t \<in> set (f s) \<Longrightarrow> length (before t) + length (rest t) = length (before s) + length (rest s)"
  shows "t \<in> set (rx_iter f n s)
         \<Longrightarrow> length (before t) + length (rest t) = length (before s) + length (rest s)"
proof (induction n arbitrary: s)
  case 0
  then show ?case by simp
next
  case (Suc n)
  from Suc.prems consider "t = s"
    | u where "u \<in> set (f s)" "t \<in> set (rx_iter f n u)"
    by auto
  then show ?case
  proof cases
    case 1
    then show ?thesis by simp
  next
    case 2
    then show ?thesis using Suc.IH [of u] assms [of u s] by simp
  qed
qed

lemma rx_iter_lazy_total:
  assumes "\<And>s t. t \<in> set (f s) \<Longrightarrow> length (before t) + length (rest t) = length (before s) + length (rest s)"
  shows "t \<in> set (rx_iter_lazy f n s)
         \<Longrightarrow> length (before t) + length (rest t) = length (before s) + length (rest s)"
proof (induction n arbitrary: s)
  case 0
  then show ?case by simp
next
  case (Suc n)
  from Suc.prems consider "t = s"
    | u where "u \<in> set (f s)" "t \<in> set (rx_iter_lazy f n u)"
    by auto
  then show ?case
  proof cases
    case 1
    then show ?thesis by simp
  next
    case 2
    then show ?thesis using Suc.IH [of u] assms [of u s] by simp
  qed
qed

lemma rx_run_total:
  "t \<in> set (rx_run r s)
   \<Longrightarrow> length (before t) + length (rest t) = length (before s) + length (rest s)"
proof (induction r arbitrary: s t)
  case (Sat p)
  then show ?case by (cases "rest s") (auto simp: rest_def before_def split: if_splits)
next
  case WordB
  then show ?case by (auto split: if_splits)
next
  case Eps
  then show ?case by simp
next
  case (Seq a b)
  then obtain u where "u \<in> set (rx_run a s)" "t \<in> set (rx_run b u)" by auto
  then show ?case using Seq.IH(1) [of u s] Seq.IH(2) [of t u] by linarith
next
  case (Alt a b)
  then have "t \<in> set (rx_run a s) \<or> t \<in> set (rx_run b s)" by simp
  then show ?case using Alt.IH by blast
next
  case (Star a)
  have mem: "t \<in> set (rx_iter (rx_run a) (length (rest s)) s)" using Star.prems by simp
  show ?case
  proof (rule rx_iter_total [where f = "rx_run a", OF _ mem])
    fix s' t' assume "t' \<in> set (rx_run a s')"
    then show "length (before t') + length (rest t') = length (before s') + length (rest s')"
      by (rule Star.IH)
  qed
next
  case (LazyStar a)
  have mem: "t \<in> set (rx_iter_lazy (rx_run a) (length (rest s)) s)"
    using LazyStar.prems by simp
  show ?case
  proof (rule rx_iter_lazy_total [where f = "rx_run a", OF _ mem])
    fix s' t' assume "t' \<in> set (rx_run a s')"
    then show "length (before t') + length (rest t') = length (before s') + length (rest s')"
      by (rule LazyStar.IH)
  qed
next
  case (Grp i a)
  then obtain u where "u \<in> set (rx_run a s)" and "rest t = rest u" and "before t = before u"
    by (auto simp: rest_def before_def)
  then show ?case using Grp.IH by metis
qed

lemma rx_exec_from_bounds:
  "rx_exec_from r bef s = Some (b0, t)
   \<Longrightarrow> length (rest t) \<le> length s \<and> (length (before t) \<noteq> length b0 \<longrightarrow> length (rest t) < length s)"
proof (induction s arbitrary: bef)
  case Nil
  then have "t \<in> set (rx_run r (bef, [], []))" and "b0 = bef"
    by (auto split: list.splits)
  then show ?case
    using rx_run_rest [of t r "(bef, [], [])"] rx_run_total [of t r "(bef, [], [])"]
    by (simp add: rest_def before_def)
next
  case (Cons c cs)
  show ?case
  proof (cases "rx_run r (bef, c # cs, [])")
    case Nil
    then have "rx_exec_from r (c # bef) cs = Some (b0, t)" using Cons.prems by simp
    from Cons.IH [OF this] show ?thesis by auto
  next
    case (Cons u us)
    then have "t \<in> set (rx_run r (bef, c # cs, []))" and "b0 = bef"
      using Cons.prems by auto
    then show ?thesis
      using rx_run_rest [of t r "(bef, c # cs, [])"] rx_run_total [of t r "(bef, c # cs, [])"]
      by (auto simp: rest_def before_def)
  qed
qed

lemma rx_all_from_fuel:
  "Suc (length s) \<le> n \<Longrightarrow> rx_all_from n r bef s = rx_all_from (Suc (length s)) r bef s"
proof (induction n arbitrary: s bef rule: less_induct)
  case (less n)
  obtain k where n: "n = Suc k" and le: "length s \<le> k"
    using less.prems by (cases n) auto
  have inner: "rx_all_from j r b u = rx_all_from (Suc (length u)) r b u"
    if "Suc (length u) \<le> j" and "j < n" for j b u
    using less.IH [OF that(2) that(1)] .
  have both: "rx_all_from k r b u = rx_all_from (length s) r b u"
    if "length u < length s" for b u
  proof -
    have "rx_all_from k r b u = rx_all_from (Suc (length u)) r b u"
      using inner [of u k b] that le n by simp
    moreover have "rx_all_from (length s) r b u = rx_all_from (Suc (length u)) r b u"
      using inner [of u "length s" b] that le n by simp
    ultimately show ?thesis by simp
  qed
  show ?case
  proof (cases "rx_exec_from r bef s")
    case None
    then show ?thesis using n by simp
  next
    case (Some p)
    obtain b0 t where p: "p = (b0, t)" by (cases p)
    have bounds: "length (rest t) \<le> length s"
      "length (before t) \<noteq> length b0 \<Longrightarrow> length (rest t) < length s"
      using rx_exec_from_bounds [of r bef s b0 t] Some p by auto
    show ?thesis
    proof (cases "length (before t) = length b0")
      case True
      show ?thesis
      proof (cases "rest t")
        case Nil
        then show ?thesis using n Some p True by simp
      next
        case (Cons c cs)
        then have "length cs < length s" using bounds(1) by simp
        then show ?thesis using n Some p True Cons both [of cs "c # before t"] by simp
      qed
    next
      case False
      then have "length (rest t) < length s" by (rule bounds(2))
      then show ?thesis using n Some p False both [of "rest t" "before t"] by simp
    qed
  qed
qed

subsection \<open>Substrings and lower case\<close>

text \<open>
  \<open>js_includes s sub\<close> holds exactly when \<open>sub\<close> occurs in \<open>s\<close>; an occurrence of a
  text in lower case survives \<open>toLowerCase\<close>.
\<close>

lemma startsWith_iff: "startsWith s p \<longleftrightarrow> (\<exists>ss. s = p @ ss)"
  by (induction s p rule: startsWith.induct) auto

lemma js_includes_iff: "js_includes s sub \<longleftrightarrow> (\<exists>ps ss. s = ps @ sub @ ss)"
proof (induction s)
  case Nil
  then show ?case by auto
next
  case (Cons c cs)
  show ?case
  proof
    assume "js_includes (c # cs) sub"
    then consider "startsWith (c # cs) sub" | "js_includes cs sub" by auto
    then show "\<exists>ps ss. c # cs = ps @ sub @ ss"
    proof cases
      case 1
      then obtain ss where "c # cs = sub @ ss" by (auto simp: startsWith_iff)
      then have "c # cs = [] @ sub @ ss" by simp
      then show ?thesis by blast
    next
      case 2
      then obtain ps ss where "cs = ps @ sub @ ss" using Cons.IH by auto
      then have "c # cs = (c # ps) @ sub @ ss" by simp
      then show ?thesis by blast
    qed
  next
    assume "\<exists>ps ss. c # cs = ps @ sub @ ss"
    then obtain ps ss where eq: "c # cs = ps @ sub @ ss" by auto
    show "js_includes (c # cs) sub"
    proof (cases ps)
      case Nil
      then have "startsWith (c # cs) sub" using eq by (auto simp: startsWith_iff)
      then show ?thesis by simp
    next
      case (Cons p ps')
      then have "cs = ps' @ sub @ ss" using eq by simp
      then have "js_includes cs sub" using Cons.IH by blast
      then show ?thesis by simp
    qed
  qed
qed

lemma js_includes_toLowerCase:
  assumes "js_includes s sub" and "toLowerCase sub = sub"
  shows "js_includes (toLowerCase s) sub"
proof -
  obtain ps ss where "s = ps @ sub @ ss" using assms(1) by (auto simp: js_includes_iff)
  then have "toLowerCase s = toLowerCase ps @ sub @ toLowerCase ss"
    using assms(2) by (simp add: toLowerCase_def)
  then show ?thesis unfolding js_includes_iff by blast
qed

lemma lower_trending: "toLowerCase ''trending'' = ''trending''"
  by code_simp

subsection \<open>The classifiers\<close>

lemma fallback_dividend:
  "fallbackProcessing ''top 5 dividend stocks'' =
     \<lparr>tool = ''get_screener'',
      parameters = JObj [(''criteria'', JStr ''dividend_yield''), (''count'', JNum (Fin 5)),
                         (''sort'', JStr ''dividend_yield_desc'')],
      reasoning = Some (JStr ''Query appears to be asking for high dividend stocks''),
      confidence = Fin 0.9, source = ''enhanced_fallback''\<rparr>"
  by code_simp

lemma fallback_compare:
  "fallbackProcessing ''compare Apple and Microsoft'' =
     \<lparr>tool = ''get_quote'', parameters = JObj [(''symbol'', JStr ''AAPL'')],
      reasoning = Some (JStr
        ''Comparison query detected with symbols: AAPL, MSFT. Using first symbol for fallback.''),
      confidence = Fin 0.85, source = ''enhanced_fallback''\<rparr>"
  by code_simp

lemma compare_symbols: "comparison_symbols ''compare Apple and Microsoft'' = [''AAPL'', ''MSFT'']"
  by code_simp

lemma processQuery_unavailable:
  "llm_unavailable w \<Longrightarrow> processQuery w ts q = Inr (fallbackProcessing q)"
  by (auto simp: llm_unavailable_def processQuery_def processQuery_try_def isl_def
           split: sum.splits reply.splits option.splits)




lemma comparison_first:
  "any_includes (toLowerCase q) [''compare'', ''vs'', ''versus'', ''comparison'', ''side by side'']
   \<Longrightarrow> tool (fallbackProcessing q) = ''get_quote'' \<and> confidence (fallbackProcessing q) = Fin 0.85"
  by (simp add: fallbackProcessing_def Let_def result_def)

lemma world_down_unavailable: "llm_unavailable world_down"
  by (simp add: llm_unavailable_def world_down_def checkOllamaStatus_def)

lemma top_compare: "any_includes (toLowerCase ''top 5 stocks vs bonds'')
                [''compare'', ''vs'', ''versus'', ''comparison'', ''side by side'']"
  by code_simp



lemma clamp_confidence_absent: "clamp_confidence w None = Fin 0.8"
  by (simp add: clamp_confidence_def)

lemma clamp_confidence_number:
  "x \<noteq> 0 \<Longrightarrow> clamp_confidence w (Some (JNum (Fin x))) = Fin (min (max x 0) 1)"
  by (simp add: clamp_confidence_def)

lemma clamp_confidence_range:
  "x \<noteq> 0 \<Longrightarrow> \<exists>y. clamp_confidence w (Some (JNum (Fin x))) = Fin y \<and> 0 \<le> y \<and> y \<le> 1"
  by (simp add: clamp_confidence_def)

lemma fallback_confidence:
  "confidence (fallbackProcessing q) \<in> Fin ` {0.6, 0.7, 0.8, 0.85, 0.9, 0.95}"
  by (simp add: fallbackProcessing_def Let_def result_def)

subsection \<open>The fallback loop\<close>

lemma try_fallbacks_trace:
  "ex_trace (try_fallbacks w m fbs st) = ex_trace st @ fb_requests w m fbs (ex_trace st) (ex_args st)"
  by (induction fbs arbitrary: st)
     (auto simp: sendToMCP_def succeeded_def Let_def split: sum.splits)

lemma fb_requests_names:
  "map req_name (fb_requests w m fbs tr a) = take (length (fb_requests w m fbs tr a)) fbs"
  by (induction fbs arbitrary: tr a) (auto simp: Let_def)

lemma fb_requests_length: "length (fb_requests w m fbs tr a) \<le> length fbs"
  by (induction fbs arbitrary: tr a) (auto simp: Let_def)

lemma fb_requests_failed:
  "Suc i < length (fb_requests w m fbs tr a)
   \<Longrightarrow> \<not> succeeded (mcp w (tr @ take i (fb_requests w m fbs tr a)) (fb_requests w m fbs tr a ! i))"
proof (induction fbs arbitrary: tr a i)
  case Nil
  then show ?case by simp
next
  case (Cons fb fbs)
  define a' where "a' = (if fb = ''search_symbols'' then [(''query'', JStr (trim m))] else a)"
  define req where "req = ToolsCall fb a'"
  have eq: "fb_requests w m (fb # fbs) tr a =
        req # (if succeeded (mcp w tr req) then [] else fb_requests w m fbs (tr @ [req]) a')"
    by (simp add: a'_def req_def Let_def)
  show ?case
  proof (cases "succeeded (mcp w tr req)")
    case True
    then show ?thesis using Cons.prems eq by simp
  next
    case False
    then have eq': "fb_requests w m (fb # fbs) tr a = req # fb_requests w m fbs (tr @ [req]) a'"
      using eq by simp
    show ?thesis
    proof (cases i)
      case 0
      then show ?thesis using False eq' by simp
    next
      case (Suc j)
      then have "Suc j < length (fb_requests w m fbs (tr @ [req]) a')"
        using Cons.prems eq' by simp
      from Cons.IH [OF this] show ?thesis using Suc eq' by simp
    qed
  qed
qed

lemma fb_requests_stop:
  "length (fb_requests w m fbs tr a) < length fbs
   \<Longrightarrow> fb_requests w m fbs tr a \<noteq> []
       \<and> succeeded (mcp w (tr @ butlast (fb_requests w m fbs tr a)) (last (fb_requests w m fbs tr a)))"
proof (induction fbs arbitrary: tr a)
  case Nil
  then show ?case by simp
next
  case (Cons fb fbs)
  define a' where "a' = (if fb = ''search_symbols'' then [(''query'', JStr (trim m))] else a)"
  define req where "req = ToolsCall fb a'"
  have eq: "fb_requests w m (fb # fbs) tr a =
        req # (if succeeded (mcp w tr req) then [] else fb_requests w m fbs (tr @ [req]) a')"
    by (simp add: a'_def req_def Let_def)
  show ?case
  proof (cases "succeeded (mcp w tr req)")
    case True
    then show ?thesis using eq by simp
  next
    case False
    then have eq': "fb_requests w m (fb # fbs) tr a = req # fb_requests w m fbs (tr @ [req]) a'"
      using eq by simp
    then have "length (fb_requests w m fbs (tr @ [req]) a') < length fbs"
      using Cons.prems by simp
    from Cons.IH [OF this] show ?thesis using eq' by (simp add: butlast_append)
  qed
qed

lemma fb_requests_args:
  "i < length (fb_requests w m fbs tr a)
   \<Longrightarrow> req_args (fb_requests w m fbs tr a ! i) =
       (if fbs ! i = ''search_symbols'' then [(''query'', JStr (trim m))]
        else if i = 0 then a else req_args (fb_requests w m fbs tr a ! (i - 1)))"
proof (induction fbs arbitrary: tr a i)
  case Nil
  then show ?case by simp
next
  case (Cons fb fbs)
  define a' where "a' = (if fb = ''search_symbols'' then [(''query'', JStr (trim m))] else a)"
  define req where "req = ToolsCall fb a'"
  have eq: "fb_requests w m (fb # fbs) tr a =
        req # (if succeeded (mcp w tr req) then [] else fb_requests w m fbs (tr @ [req]) a')"
    by (simp add: a'_def req_def Let_def)
  show ?case
  proof (cases i)
    case 0
    then show ?thesis using eq by (simp add: req_def a'_def)
  next
    case (Suc j)
    then have ns: "\<not> succeeded (mcp w tr req)" using Cons.prems eq by (auto split: if_splits)
    then have eq': "fb_requests w m (fb # fbs) tr a = req # fb_requests w m fbs (tr @ [req]) a'"
      using eq by simp
    have "j < length (fb_requests w m fbs (tr @ [req]) a')" using Cons.prems Suc eq' by simp
    from Cons.IH [OF this] show ?thesis
      using Suc eq' by (cases j) (auto simp: req_def)
  qed
qed



lemma execute_failed:
  assumes "\<not> succeeded (mcp w trace (ToolsCall t toolArgs))"
  shows "\<exists>st0. execute w m t toolArgs trace = try_fallbacks w m (fallbacks_for t) st0
           \<and> ex_trace st0 = trace @ [ToolsCall t toolArgs] \<and> ex_args st0 = toolArgs"
  using assms by (auto simp: execute_def sendToMCP_def succeeded_def split: sum.splits)

lemma fallbacks_for_search_last:
  "i < length (fallbacks_for t) \<Longrightarrow> fallbacks_for t ! i \<noteq> ''search_symbols'' \<Longrightarrow> i = 0"
  by (auto simp: fallbacks_for_def less_Suc_eq split: if_splits)



lemma analyze_prepared:
  "prepare w reg0 message = Inr (reg, t, toolArgs, trace)
   \<Longrightarrow> analyze w reg0 message =
        (respond w reg message t (execute w message t toolArgs trace),
         ex_trace (execute w message t toolArgs trace), reg)"
  by (simp add: analyze_def Let_def)

lemma execute_sent:
  assumes "\<not> succeeded (mcp w trace (ToolsCall t toolArgs))"
  shows "ex_trace (execute w m t toolArgs trace) =
           trace @ ToolsCall t toolArgs
             # fb_requests w m (fallbacks_for t) (trace @ [ToolsCall t toolArgs]) toolArgs"
proof -
  obtain st0 where "execute w m t toolArgs trace = try_fallbacks w m (fallbacks_for t) st0"
    and "ex_trace st0 = trace @ [ToolsCall t toolArgs]" and "ex_args st0 = toolArgs"
    using execute_failed [OF assms] by blast
  then show ?thesis by (simp add: try_fallbacks_trace)
qed

subsection \<open>Parameter resolution\<close>







subsection \<open>When every call is rejected\<close>

lemma try_fallbacks_rejected:
  "\<forall>tr req. isl (mcp w tr req) \<Longrightarrow> ex_response st = None
   \<Longrightarrow> ex_response (try_fallbacks w m fbs st) = None"
proof (induction fbs arbitrary: st)
  case Nil
  then show ?case by simp
next
  case (Cons fb fbs)
  define a' where "a' = (if fb = ''search_symbols'' then [(''query'', JStr (trim m))] else ex_args st)"
  obtain e where e: "mcp w (ex_trace st) (ToolsCall fb a') = Inl e"
    using Cons.prems(1) by (metis isl_def)
  have "try_fallbacks w m (fb # fbs) st =
          try_fallbacks w m fbs
            (st\<lparr>ex_trace := ex_trace st @ [ToolsCall fb a'], ex_name := fb, ex_args := a',
                ex_lastError := Some e\<rparr>)"
    using e unfolding a'_def by (simp add: sendToMCP_def Let_def)
  then show ?case using Cons.IH [OF Cons.prems(1)] Cons.prems(2) by simp
qed

lemma try_fallbacks_rejected_error:
  assumes "\<forall>tr req. isl (mcp w tr req)"
  shows "ex_trace st \<noteq> [] \<Longrightarrow> mcp w (butlast (ex_trace st)) (last (ex_trace st)) = Inl e0
    \<Longrightarrow> ex_lastError st = Some e0
    \<Longrightarrow> \<exists>e. ex_lastError (try_fallbacks w m fbs st) = Some e
          \<and> mcp w (butlast (ex_trace (try_fallbacks w m fbs st)))
                (last (ex_trace (try_fallbacks w m fbs st))) = Inl e"
proof (induction fbs arbitrary: st e0)
  case Nil
  then show ?case by simp
next
  case (Cons fb fbs)
  define a' where "a' = (if fb = ''search_symbols'' then [(''query'', JStr (trim m))] else ex_args st)"
  define st1 where "st1 = (\<lambda>e. st\<lparr>ex_trace := ex_trace st @ [ToolsCall fb a'], ex_name := fb,
                                ex_args := a', ex_lastError := Some e\<rparr>)"
  obtain e where e: "mcp w (ex_trace st) (ToolsCall fb a') = Inl e"
    using assms by (metis isl_def)
  have step: "try_fallbacks w m (fb # fbs) st = try_fallbacks w m fbs (st1 e)"
    using e unfolding a'_def st1_def by (simp add: sendToMCP_def Let_def)
  have "\<exists>e'. ex_lastError (try_fallbacks w m fbs (st1 e)) = Some e'
          \<and> mcp w (butlast (ex_trace (try_fallbacks w m fbs (st1 e))))
                (last (ex_trace (try_fallbacks w m fbs (st1 e)))) = Inl e'"
    by (rule Cons.IH [of "st1 e" e]) (simp_all add: st1_def e)
  then show ?case by (simp only: step)
qed

lemma analyze_all_rejected:
  assumes "prepare w reg0 message = Inr (reg, t, toolArgs, trace)"
      and "\<forall>tr req. isl (mcp w tr req)"
  shows "\<exists>e. fst (analyze w reg0 message) = analyze_failed e
             \<and> mcp w (butlast (fst (snd (analyze w reg0 message))))
                   (last (fst (snd (analyze w reg0 message)))) = Inl e"
proof -
  obtain e0 where e0: "mcp w trace (ToolsCall t toolArgs) = Inl e0"
    using assms(2) by (metis isl_def)
  define st0 where "st0 = \<lparr>ex_trace = trace @ [ToolsCall t toolArgs], ex_name = t,
                           ex_args = toolArgs, ex_response = None, ex_lastError = Some e0\<rparr>"
  have ex: "execute w message t toolArgs trace = try_fallbacks w message (fallbacks_for t) st0"
    using e0 by (simp add: execute_def sendToMCP_def st0_def)
  have none: "ex_response (execute w message t toolArgs trace) = None"
    unfolding ex using try_fallbacks_rejected [OF assms(2)] by (simp add: st0_def)
  obtain e where e: "ex_lastError (execute w message t toolArgs trace) = Some e"
    and l: "mcp w (butlast (ex_trace (execute w message t toolArgs trace)))
              (last (ex_trace (execute w message t toolArgs trace))) = Inl e"
    unfolding ex
    using try_fallbacks_rejected_error [OF assms(2), of st0 e0 message "fallbacks_for t"] e0
    by (auto simp: st0_def)
  show ?thesis
    using assms(1) none e l by (simp add: analyze_prepared respond_def)
qed

subsection \<open>The example runs\<close>

lemma screener_prepared:
  "prepare world_search_ok reg_screener ''top 5 dividend stocks'' =
     Inr (reg_screener, ''get_screener'',
          [(''criteria'', JStr ''dividend_yield''), (''count'', JNum (Fin 5)),
           (''sort'', JStr ''dividend_yield_desc'')], [])"
  by code_simp

lemma screener_rejected:
  "\<not> succeeded (mcp world_search_ok []
        (ToolsCall ''get_screener''
           [(''criteria'', JStr ''dividend_yield''), (''count'', JNum (Fin 5)),
            (''sort'', JStr ''dividend_yield_desc'')]))"
  by code_simp

lemma screener_trace:
  "fst (snd (analyze world_search_ok reg_screener ''top 5 dividend stocks'')) =
       [ToolsCall ''get_screener''
          [(''criteria'', JStr ''dividend_yield''), (''count'', JNum (Fin 5)),
           (''sort'', JStr ''dividend_yield_desc'')],
        ToolsCall ''get_trending_stocks''
          [(''criteria'', JStr ''dividend_yield''), (''count'', JNum (Fin 5)),
           (''sort'', JStr ''dividend_yield_desc'')],
        ToolsCall ''search_symbols'' [(''query'', JStr ''top 5 dividend stocks'')]]"
  by code_simp








section \<open>The claims\<close>

subsection \<open>C1: an unresolved symbol\<close>




subsection \<open>C2: the LLM-backed classifier never throws\<close>



subsection \<open>C3: the order of the fallbacks\<close>

text \<open>
  C3, as stated, fails: the alternates are not restricted to those present in the
  registry. With a registry that holds \<open>get_screener\<close> and \<open>search_symbols\<close> but not
  \<open>get_trending_stocks\<close>, a failing \<open>get_screener\<close> is followed by a request for
  \<open>get_trending_stocks\<close>.
\<close>

theorem C3_registry_not_consulted:
  "availableTools_get reg_screener ''search_symbols'' = Some search_tool
   \<and> availableTools_get reg_screener ''get_trending_stocks'' = None
   \<and> fst (snd (analyze world_down reg_screener ''top 5 dividend stocks'')) =
       [ToolsCall ''get_screener''
          [(''criteria'', JStr ''dividend_yield''), (''count'', JNum (Fin 5)),
           (''sort'', JStr ''dividend_yield_desc'')],
        ToolsCall ''get_trending_stocks''
          [(''criteria'', JStr ''dividend_yield''), (''count'', JNum (Fin 5)),
           (''sort'', JStr ''dividend_yield_desc'')],
        ToolsCall ''search_symbols'' [(''query'', JStr ''top 5 dividend stocks'')]]"
  by code_simp

text \<open>
  C3, amended. When the primary invocation fails, the endpoint sends the alternates of
  the table \<open>fallbacks\<close> of the tool (\<open>get_screener\<close>: \<open>get_trending_stocks\<close> then
  \<open>search_symbols\<close>; \<open>get_trending_stocks\<close>: \<open>search_symbols\<close>; \<open>get_quote\<close>:
  \<open>search_symbols\<close>; \<open>search_symbols\<close>: \<open>get_trending_stocks\<close>; none for another tool),
  in that order and whether or not the registry holds them. A request for
  \<open>search_symbols\<close> carries the trimmed message as its query, a request for another
  alternate the arguments of the primary request. Each request but the last failed, and
  the requests stop short of the table only after one that succeeded.
\<close>

theorem C3_fallbacks_in_table_order:
  assumes "prepare w reg0 message = Inr (reg, t, toolArgs, trace)"
      and "\<not> succeeded (mcp w trace (ToolsCall t toolArgs))"
  shows "\<exists>sent. fst (snd (analyze w reg0 message)) = trace @ ToolsCall t toolArgs # sent
     \<and> map req_name sent = take (length sent) (fallbacks_for t)
     \<and> (\<forall>i<length sent. req_args (sent ! i) =
            (if req_name (sent ! i) = ''search_symbols'' then [(''query'', JStr (trim message))]
             else toolArgs))
     \<and> (\<forall>i. Suc i < length sent
            \<longrightarrow> \<not> succeeded (mcp w (trace @ ToolsCall t toolArgs # take i sent) (sent ! i)))
     \<and> (length sent < length (fallbacks_for t)
          \<longrightarrow> sent \<noteq> []
              \<and> succeeded (mcp w (trace @ ToolsCall t toolArgs # butlast sent) (last sent)))
     \<and> fallbacks_for ''get_screener'' = [''get_trending_stocks'', ''search_symbols'']
     \<and> fallbacks_for ''get_trending_stocks'' = [''search_symbols'']
     \<and> fallbacks_for ''get_quote'' = [''search_symbols'']
     \<and> fallbacks_for ''search_symbols'' = [''get_trending_stocks'']"
proof -
  have table: "fallbacks_for ''get_screener'' = [''get_trending_stocks'', ''search_symbols'']"
    "fallbacks_for ''get_trending_stocks'' = [''search_symbols'']"
    "fallbacks_for ''get_quote'' = [''search_symbols'']"
    "fallbacks_for ''search_symbols'' = [''get_trending_stocks'']"
    by (simp_all add: fallbacks_for_def)
  define sent where
    "sent = fb_requests w message (fallbacks_for t) (trace @ [ToolsCall t toolArgs]) toolArgs"
  have tr: "fst (snd (analyze w reg0 message)) = trace @ ToolsCall t toolArgs # sent"
    using assms by (simp add: analyze_prepared execute_sent sent_def)
  have names: "map req_name sent = take (length sent) (fallbacks_for t)"
    unfolding sent_def by (rule fb_requests_names)
  have len: "length sent \<le> length (fallbacks_for t)"
    unfolding sent_def by (rule fb_requests_length)
  have args: "req_args (sent ! i) =
            (if req_name (sent ! i) = ''search_symbols'' then [(''query'', JStr (trim message))]
             else toolArgs)" if "i < length sent" for i
  proof -
    have nm: "req_name (sent ! i) = fallbacks_for t ! i"
      using that names len by (metis nth_map nth_take)
    show ?thesis
    proof (cases "fallbacks_for t ! i = ''search_symbols''")
      case True
      then show ?thesis using that nm fb_requests_args [of i w message "fallbacks_for t"]
        by (simp add: sent_def)
    next
      case False
      then have "i = 0" using that len fallbacks_for_search_last [of i t] by simp
      then show ?thesis using that nm False fb_requests_args [of i w message "fallbacks_for t"]
        by (simp add: sent_def)
    qed
  qed
  have failed: "\<not> succeeded (mcp w (trace @ ToolsCall t toolArgs # take i sent) (sent ! i))"
    if "Suc i < length sent" for i
    using fb_requests_failed [of i w message "fallbacks_for t" "trace @ [ToolsCall t toolArgs]" toolArgs]
      that by (simp add: sent_def)
  have stop: "sent \<noteq> []
              \<and> succeeded (mcp w (trace @ ToolsCall t toolArgs # butlast sent) (last sent))"
    if "length sent < length (fallbacks_for t)"
    using fb_requests_stop [of w message "fallbacks_for t" "trace @ [ToolsCall t toolArgs]" toolArgs]
      that by (simp add: sent_def)
  have "\<exists>sent. fst (snd (analyze w reg0 message)) = trace @ ToolsCall t toolArgs # sent
     \<and> map req_name sent = take (length sent) (fallbacks_for t)
     \<and> (\<forall>i<length sent. req_args (sent ! i) =
            (if req_name (sent ! i) = ''search_symbols'' then [(''query'', JStr (trim message))]
             else toolArgs))
     \<and> (\<forall>i. Suc i < length sent
            \<longrightarrow> \<not> succeeded (mcp w (trace @ ToolsCall t toolArgs # take i sent) (sent ! i)))
     \<and> (length sent < length (fallbacks_for t)
          \<longrightarrow> sent \<noteq> []
              \<and> succeeded (mcp w (trace @ ToolsCall t toolArgs # butlast sent) (last sent)))"
    using tr names args failed stop by blast
  then show ?thesis using table by simp
qed

theorem C3_fallbacks_in_table_order_witness:
  "prepare world_search_ok reg_screener ''top 5 dividend stocks'' =
     Inr (reg_screener, ''get_screener'',
          [(''criteria'', JStr ''dividend_yield''), (''count'', JNum (Fin 5)),
           (''sort'', JStr ''dividend_yield_desc'')], [])
   \<and> \<not> succeeded (mcp world_search_ok []
        (ToolsCall ''get_screener''
           [(''criteria'', JStr ''dividend_yield''), (''count'', JNum (Fin 5)),
            (''sort'', JStr ''dividend_yield_desc'')]))
   \<and> (\<exists>sent. fst (snd (analyze world_search_ok reg_screener ''top 5 dividend stocks'')) =
           ToolsCall ''get_screener''
             [(''criteria'', JStr ''dividend_yield''), (''count'', JNum (Fin 5)),
              (''sort'', JStr ''dividend_yield_desc'')] # sent
         \<and> map req_name sent = take (length sent) (fallbacks_for ''get_screener''))
   \<and> fst (snd (analyze world_search_ok reg_screener ''top 5 dividend stocks'')) =
       [ToolsCall ''get_screener''
          [(''criteria'', JStr ''dividend_yield''), (''count'', JNum (Fin 5)),
           (''sort'', JStr ''dividend_yield_desc'')],
        ToolsCall ''get_trending_stocks''
          [(''criteria'', JStr ''dividend_yield''), (''count'', JNum (Fin 5)),
           (''sort'', JStr ''dividend_yield_desc'')],
        ToolsCall ''search_symbols'' [(''query'', JStr ''top 5 dividend stocks'')]]"
proof -
  have "\<exists>sent. fst (snd (analyze world_search_ok reg_screener ''top 5 dividend stocks'')) =
           ToolsCall ''get_screener''
             [(''criteria'', JStr ''dividend_yield''), (''count'', JNum (Fin 5)),
              (''sort'', JStr ''dividend_yield_desc'')] # sent
         \<and> map req_name sent = take (length sent) (fallbacks_for ''get_screener'')"
    using C3_fallbacks_in_table_order [OF screener_prepared screener_rejected] by auto
  then show ?thesis using screener_prepared screener_rejected screener_trace by blast
qed

subsection \<open>C4: every invocation fails\<close>

text \<open>
  C4. The claim holds when every invocation is rejected by the transport
  (\<open>analyze_all_rejected\<close>: the response of the \<open>catch\<close> block, status 500 and widget
  type \<open>error\<close>, with the error of the last request). It fails when an
  invocation fails by the marker \<open>Error:\<close> in its text: the response that carries the
  marker stays in \<open>response\<close>, so the test \<open>if (!response)\<close> for "all tools failed" does
  not fire. With every tool answering the text of an error, the query \<open>AAPL price\<close> gets
  status 200 and the widget type \<open>search\<close> of the last alternate, with the error text as
  its data.
\<close>

theorem C4_error_text_answers_as_data:
  "analyze world_soft reg_quote ''AAPL price'' =
     (\<lparr>status = 200, r_error = None, r_content = ''Analysis completed for: AAPL price'',
       r_data = JObj [(''message'', JStr ''Error: Yahoo Finance API error'')],
       widgetType = ''search'', r_query = Some ''AAPL price'', toolUsed = Some ''get_quote''\<rparr>,
      [ToolsCall ''get_quote'' [(''symbol'', JStr ''AAPL'')],
       ToolsCall ''search_symbols'' [(''query'', JStr ''AAPL price'')]],
      reg_quote)"
  by code_simp

subsection \<open>C5: the confidence of an LLM classification\<close>

text \<open>
  C5. The claim holds when the response gives no confidence (0.8, \<open>clamp_confidence_absent\<close>)
  and when it gives a number other than zero (that number clamped into the interval from
  0 to 1, \<open>clamp_confidence_number\<close>), and the rule-based classifier's confidences are
  constants of the interval (\<open>fallback_confidence\<close>). It fails, by the test for a missing
  value \<open>result.confidence || 0.8\<close>, when the response gives the number 0: a response
  that names the registered tool \<open>get_quote\<close> with confidence 0 is classified with
  confidence 0.8, where the claim says 0, while a confidence of -0.5 is clamped to 0. A
  confidence that is a text with no numeric value gives NaN, which is not in the interval.
\<close>

theorem C5_zero_confidence_defaulted:
  "processQuery (world_llm reply_zero_text reply_zero) [''get_quote''] ''Apple stock''
     = Inr \<lparr>tool = ''get_quote'', parameters = JObj [], reasoning = None,
            confidence = Fin 0.8, source = ''llm''\<rparr>
   \<and> clamp_confidence (world_llm reply_zero_text reply_zero) (Some (JNum (Fin (- 0.5)))) = Fin 0
   \<and> clamp_confidence (world_llm reply_zero_text reply_zero) (Some (JStr ''high'')) = NaN"
  by code_simp

subsection \<open>C6: the category of a tool\<close>

text \<open>
  C6. For every tool descriptor, the category that \<open>extractToolCapabilities\<close> derives is
  the one the ranked substring checks of the specification give on the tool's name in
  lower case. In particular a tool whose name contains \<open>trending\<close> has the category
  \<open>trending\<close>, whatever its description is.
\<close>

theorem C6_category_precedence:
  "category (extractToolCapabilities t) = category_by_precedence (toLowerCase (tool_name t))
   \<and> (js_includes (tool_name t) ''trending''
        \<longrightarrow> (\<forall>d. category (extractToolCapabilities (t\<lparr>tool_description := d\<rparr>)) = ''trending''))"
proof -
  have "js_includes (toLowerCase (tool_name t)) ''trending''" if "js_includes (tool_name t) ''trending''"
    using that lower_trending by (rule js_includes_toLowerCase)
  then show ?thesis
    by (simp add: extractToolCapabilities_def category_by_precedence_def any_includes_def Let_def)
qed

theorem C6_category_precedence_witness:
  "js_includes (tool_name etf_tool) ''trending''
   \<and> category (extractToolCapabilities etf_tool) = ''trending''"
proof -
  have h: "js_includes (tool_name etf_tool) ''trending''" by code_simp
  have "etf_tool\<lparr>tool_description := Some ''Search a quote chart of gainers''\<rparr> = etf_tool"
    by (simp add: etf_tool_def)
  then show ?thesis
    using C6_category_precedence [of etf_tool] h by metis
qed

subsection \<open>C7: the dividend scenario\<close>

text \<open>
  C7. With the LLM classifier unavailable (the status probe fails or the generation call
  is rejected), the query \<open>top 5 dividend stocks\<close> is classified by the rule-based
  classifier as the screening tool \<open>get_screener\<close> with criteria \<open>dividend_yield\<close>,
  count 5 (and the sort \<open>dividend_yield_desc\<close>), confidence 0.9, and the source the
  rule-based classifier writes, which the program spells \<open>enhanced_fallback\<close>.
\<close>

theorem C7_dividend_scenario:
  assumes "llm_unavailable w"
  shows "processQuery w availableTools ''top 5 dividend stocks'' =
     Inr \<lparr>tool = ''get_screener'',
          parameters = JObj [(''criteria'', JStr ''dividend_yield''), (''count'', JNum (Fin 5)),
                             (''sort'', JStr ''dividend_yield_desc'')],
          reasoning = Some (JStr ''Query appears to be asking for high dividend stocks''),
          confidence = Fin 0.9, source = ''enhanced_fallback''\<rparr>"
  using assms by (simp add: processQuery_unavailable fallback_dividend)

theorem C7_dividend_scenario_witness:
  "llm_unavailable world_down \<and>
   processQuery world_down [''get_screener''] ''top 5 dividend stocks'' =
     Inr \<lparr>tool = ''get_screener'',
          parameters = JObj [(''criteria'', JStr ''dividend_yield''), (''count'', JNum (Fin 5)),
                             (''sort'', JStr ''dividend_yield_desc'')],
          reasoning = Some (JStr ''Query appears to be asking for high dividend stocks''),
          confidence = Fin 0.9, source = ''enhanced_fallback''\<rparr>"
  using C7_dividend_scenario [OF world_down_unavailable, of "[''get_screener'']"]
    world_down_unavailable by simp

subsection \<open>C8: the comparison scenario\<close>

text \<open>
  C8. With the LLM classifier unavailable, the query \<open>compare Apple and Microsoft\<close> is
  classified as \<open>get_quote\<close> with symbol \<open>AAPL\<close>, the first of the extracted symbols
  \<open>AAPL, MSFT\<close>, with confidence 0.85 and a reasoning text that names both. The
  comparison rule comes before every other rule: whatever else a query holds, a
  comparison word in it gives \<open>get_quote\<close> with confidence 0.85.
\<close>

theorem C8_compare_scenario:
  assumes "llm_unavailable w"
  shows "processQuery w availableTools ''compare Apple and Microsoft'' =
     Inr \<lparr>tool = ''get_quote'', parameters = JObj [(''symbol'', JStr ''AAPL'')],
          reasoning = Some (JStr
            ''Comparison query detected with symbols: AAPL, MSFT. Using first symbol for fallback.''),
          confidence = Fin 0.85, source = ''enhanced_fallback''\<rparr>
     \<and> comparison_symbols ''compare Apple and Microsoft'' = [''AAPL'', ''MSFT'']
     \<and> (\<forall>q. any_includes (toLowerCase q)
                [''compare'', ''vs'', ''versus'', ''comparison'', ''side by side'']
              \<longrightarrow> tool (fallbackProcessing q) = ''get_quote''
                  \<and> confidence (fallbackProcessing q) = Fin 0.85)"
proof -
  have a: "processQuery w availableTools ''compare Apple and Microsoft'' =
     Inr (fallbackProcessing ''compare Apple and Microsoft'')"
    using assms by (rule processQuery_unavailable)
  have c: "\<forall>q. any_includes (toLowerCase q)
                [''compare'', ''vs'', ''versus'', ''comparison'', ''side by side'']
              \<longrightarrow> tool (fallbackProcessing q) = ''get_quote''
                  \<and> confidence (fallbackProcessing q) = Fin 0.85"
    using comparison_first by blast
  show ?thesis using a c compare_symbols by (simp only: fallback_compare)
qed

theorem C8_compare_scenario_witness:
  "llm_unavailable world_down \<and>
   processQuery world_down [] ''compare Apple and Microsoft'' =
     Inr \<lparr>tool = ''get_quote'', parameters = JObj [(''symbol'', JStr ''AAPL'')],
          reasoning = Some (JStr
            ''Comparison query detected with symbols: AAPL, MSFT. Using first symbol for fallback.''),
          confidence = Fin 0.85, source = ''enhanced_fallback''\<rparr>
   \<and> tool (fallbackProcessing ''top 5 stocks vs bonds'') = ''get_quote''"
  using C8_compare_scenario [OF world_down_unavailable, of "[]"] world_down_unavailable top_compare
  by blast

subsection \<open>C9: the timeouts\<close>

text \<open>
  C9 bounds the time the program waits for the model endpoint and for the protocol
  server. Time is not part of this model: a timeout is one of the rejections of a call
  (\<open>Inl\<close> in \<open>tags_reply\<close>, \<open>generate_reply\<close> and \<open>mcp\<close>), and C2 covers what follows a
  rejected call of the model endpoint. The program sets 3000 ms on the status probe,
  10000 ms on the generation call and 30000 ms on a request to the protocol server.
\<close>

subsection \<open>C10: the widget type after a fallback\<close>



end
